theory Spec2Isabelle
  imports Main "HOL-Library.Sublist"
begin

section \<open>Python strings\<close>

text \<open>
  A Python \<open>str\<close> is modelled as a \<open>string\<close> holding its UTF-8 bytes. The few
  non-ASCII characters the scripts print are written as their byte sequences.
\<close>

definition newline :: string where
  "newline = [CHR 0x0A]"

definition rocket :: string where \<comment> \<open>U+1F680, the prefix of every announced command\<close>
  "rocket = [CHR 0xF0, CHR 0x9F, CHR 0x9A, CHR 0x80]"

definition repeat_arrows :: string where \<comment> \<open>U+1F501, printed when a branch is aligned\<close>
  "repeat_arrows = [CHR 0xF0, CHR 0x9F, CHR 0x94, CHR 0x81]"

definition right_arrow :: string where \<comment> \<open>U+2192\<close>
  "right_arrow = [CHR 0xE2, CHR 0x86, CHR 0x92]"

definition folder :: string where \<comment> \<open>U+1F4C2, printed before each directory of a batch\<close>
  "folder = [CHR 0xF0, CHR 0x9F, CHR 0x93, CHR 0x82]"

definition cycle_arrows :: string where \<comment> \<open>U+1F504\<close>
  "cycle_arrows = [CHR 0xF0, CHR 0x9F, CHR 0x94, CHR 0x84]"

definition up_arrow :: string where \<comment> \<open>U+2B06 U+FE0F\<close>
  "up_arrow = [CHR 0xE2, CHR 0xAC, CHR 0x86, CHR 0xEF, CHR 0xB8, CHR 0x8F]"

definition check_mark :: string where \<comment> \<open>U+2705\<close>
  "check_mark = [CHR 0xE2, CHR 0x9C, CHR 0x85]"

definition cross_mark :: string where \<comment> \<open>U+274C\<close>
  "cross_mark = [CHR 0xE2, CHR 0x9D, CHR 0x8C]"

definition sparkles :: string where \<comment> \<open>U+2728\<close>
  "sparkles = [CHR 0xE2, CHR 0x9C, CHR 0xA8]"

text \<open>\<open>sep.join(xs)\<close>\<close>

fun join :: "string \<Rightarrow> string list \<Rightarrow> string" where
  "join sep [] = []"
| "join sep [x] = x"
| "join sep (x # y # ys) = x @ sep @ join sep (y # ys)"

text \<open>\<open>s.startswith(p)\<close> is \<^const>\<open>prefix\<close>; \<open>c in s\<close> for a one-character \<open>c\<close> is
  membership in \<^term>\<open>set s\<close>; \<open>t in s\<close> for a string \<open>t\<close> is \<open>contains\<close>.\<close>

fun contains :: "string \<Rightarrow> string \<Rightarrow> bool" where
  "contains t [] = (t = [])"
| "contains t (c # cs) = (prefix t (c # cs) \<or> contains t cs)"

text \<open>
  \<open>s.replace(old, new)\<close>: every non-overlapping occurrence of \<open>old\<close>, scanning from the
  left. With an empty \<open>old\<close> Python puts \<open>new\<close> before every character and at the end.
\<close>

function replace :: "string \<Rightarrow> string \<Rightarrow> string \<Rightarrow> string" where
  "replace old new s =
     (if old = [] then concat (map (\<lambda>c. new @ [c]) s) @ new
      else if s = [] then []
      else if prefix old s then new @ replace old new (drop (length old) s)
      else hd s # replace old new (tl s))"
  by pat_completeness auto
termination
  by (relation "measure (\<lambda>(old, new, s). length s)") auto

declare replace.simps [simp del]

text \<open>
  \<open>s.strip()\<close> removes leading and trailing whitespace. Python's whitespace characters
  are U+0009 to U+000D, U+001C to U+0020, U+0085, U+00A0, U+1680, U+2000 to U+200A,
  U+2028, U+2029, U+202F, U+205F and U+3000; \<open>blanks\<close> lists their UTF-8 encodings. In
  well-formed UTF-8 such an encoding at the start or at the end of a string is that
  character, since each begins with a lead byte.
\<close>

definition blanks :: "string list" where
  "blanks =
     [[CHR 0x09], [CHR 0x0A], [CHR 0x0B], [CHR 0x0C], [CHR 0x0D],
      [CHR 0x1C], [CHR 0x1D], [CHR 0x1E], [CHR 0x1F], [CHR 0x20],
      [CHR 0xC2, CHR 0x85], [CHR 0xC2, CHR 0xA0],
      [CHR 0xE1, CHR 0x9A, CHR 0x80],
      [CHR 0xE2, CHR 0x80, CHR 0x80], [CHR 0xE2, CHR 0x80, CHR 0x81], [CHR 0xE2, CHR 0x80, CHR 0x82],
      [CHR 0xE2, CHR 0x80, CHR 0x83], [CHR 0xE2, CHR 0x80, CHR 0x84], [CHR 0xE2, CHR 0x80, CHR 0x85],
      [CHR 0xE2, CHR 0x80, CHR 0x86], [CHR 0xE2, CHR 0x80, CHR 0x87], [CHR 0xE2, CHR 0x80, CHR 0x88],
      [CHR 0xE2, CHR 0x80, CHR 0x89], [CHR 0xE2, CHR 0x80, CHR 0x8A],
      [CHR 0xE2, CHR 0x80, CHR 0xA8], [CHR 0xE2, CHR 0x80, CHR 0xA9], [CHR 0xE2, CHR 0x80, CHR 0xAF],
      [CHR 0xE2, CHR 0x81, CHR 0x9F],
      [CHR 0xE3, CHR 0x80, CHR 0x80]]"

text \<open>Dropping, from the left, every leading occurrence of one of the sequences \<open>bs\<close>.\<close>

function drop_blanks :: "string list \<Rightarrow> string \<Rightarrow> string" where
  "drop_blanks bs s =
     (case find (\<lambda>b. b \<noteq> [] \<and> prefix b s) bs of
        None \<Rightarrow> s
      | Some b \<Rightarrow> drop_blanks bs (drop (length b) s))"
  by pat_completeness auto
termination
proof (relation "measure (\<lambda>(bs, s). length s)")
  show "wf (measure (\<lambda>(bs, s). length s))" by simp
next
  fix bs :: "string list" and s b :: string
  assume "find (\<lambda>b. b \<noteq> [] \<and> prefix b s) bs = Some b"
  then have "b \<noteq> []" and "prefix b s"
    by (auto simp: find_Some_iff)
  then have "0 < length b" and "length b \<le> length s"
    by (simp_all add: prefix_length_le)
  then show "((bs, drop (length b) s), (bs, s)) \<in> measure (\<lambda>(bs, s). length s)"
    by (cases b) auto
qed

declare drop_blanks.simps [simp del]

definition strip :: "string \<Rightarrow> string" where
  "strip s = rev (drop_blanks (map rev blanks) (rev (drop_blanks blanks s)))"

text \<open>\<open>s.split(sep)\<close> for a one-character separator; the result is never empty.\<close>

fun split :: "char \<Rightarrow> string \<Rightarrow> string list" where
  "split sep [] = [[]]"
| "split sep (c # cs) =
     (if c = sep then [] # split sep cs
      else (case split sep cs of [] \<Rightarrow> [[c]] | p # ps \<Rightarrow> (c # p) # ps))"

text \<open>\<open>os.path.join(a, b)\<close> on POSIX, for two components.\<close>

definition path_join :: "string \<Rightarrow> string \<Rightarrow> string" where
  "path_join a b =
     (if prefix ''/'' b then b
      else if a = [] \<or> last a = CHR ''/'' then a @ b
      else a @ ''/'' @ b)"

section \<open>The world outside the scripts\<close>

text \<open>
  A working copy, as far as the scripts observe and change it: the URL of its remote
  \<open>origin\<close>, the branch checked out, and the target of \<open>refs/remotes/origin/HEAD\<close>.
\<close>

record working_copy =
  origin_url :: string
  branch :: string
  origin_head :: string

text \<open>
  The calls into the GitPython library made by the upload path: \<open>gr.git.add(A=True)\<close>,
  \<open>gr.index.commit(msg)\<close>, \<open>origin.push(refspec=r)\<close> (\<open>Remote_push r False\<close>),
  \<open>origin.push(refspec=r, force=True)\<close> (\<open>Remote_push r True\<close>, which GitPython runs as
  \<open>git push --force\<close>) and \<open>gr.git.fetch(remote)\<close>.
\<close>

datatype gp_call =
    Add_all
  | Index_commit string
  | Remote_push string bool
  | Git_fetch string

text \<open>
  The state threaded through every function: the working copies by path, every
  subprocess command line issued so far, every GitPython call made so far, the lines
  printed on the console and the lines appended to the activity log (\<open>LOG_FILE\<close>), the
  latter without their timestamp.
\<close>

record world =
  copies :: "string \<Rightarrow> working_copy"
  issued :: "string list list"
  gp_calls :: "gp_call list"
  console :: "string list"
  logfile :: "string list"

text \<open>
  How a subprocess ends: exit status zero, a non-zero exit status, or the process could
  not be started at all (\<open>subprocess\<close> then raises \<open>OSError\<close>).
\<close>

datatype outcome = Exit0 | ExitFail | NoSpawn

datatype py_exn =
    CalledProcessError "string list"
  | OSError
  | TypeError
  | RequestException
  | JSONDecodeError
  | AttributeError
  | GitCommandError

text \<open>
  JSON values, as far as \<open>default_branch\<close> is read from them: a string, \<open>null\<close>, or any
  other value (with the text Python's \<open>str\<close> gives it). The body of a response is not
  JSON at all, a JSON object (its members, each key once), or some other JSON value.
\<close>

datatype json = JString string | JNull | JOther string

datatype json_body = NotJson | JsonObject "(string \<times> json) list" | JsonNotObject

datatype http_result = RequestFailed | Response bool json_body

text \<open>
  What the scripts do not decide: the token and the login read at start-up, the outcome
  of the \<open>n\<close>-th subprocess (which may depend on its command line), the answer of
  \<open>requests.get\<close> for a URL, whether the \<open>n\<close>-th GitPython call returns (\<open>True\<close>) or
  raises, what \<open>gr.is_dirty(untracked_files=True)\<close> answers, and Python's \<open>str(e)\<close> of an
  exception.
\<close>

record env =
  TOKEN :: string
  user_login :: string
  proc :: "nat \<Rightarrow> string list \<Rightarrow> outcome"
  requests_get :: "string \<Rightarrow> http_result"
  git_api :: "nat \<Rightarrow> gp_call \<Rightarrow> bool"
  is_dirty :: bool
  exn_text :: "py_exn \<Rightarrow> string"

subsection \<open>What git does\<close>

text \<open>
  The effect of a command that exits with status zero on the working copies: a checkout
  switches the branch, \<open>remote set-url origin\<close> stores the URL, a clone stores the URL
  it was given as \<open>origin\<close>. A command that fails leaves the working copies as they were.
\<close>

definition git_effect :: "string list \<Rightarrow> (string \<Rightarrow> working_copy) \<Rightarrow> (string \<Rightarrow> working_copy)" where
  "git_effect cmd cs =
     (case cmd of
        [g, c, p, a, b] \<Rightarrow>
          if g = ''git'' \<and> c = ''-C'' \<and> a = ''checkout'' then cs(p := (cs p)\<lparr>branch := b\<rparr>) else cs
      | [g, c, p, r, s, origin, u] \<Rightarrow>
          if g = ''git'' \<and> c = ''-C'' \<and> r = ''remote'' \<and> s = ''set-url'' \<and> origin = ''origin''
          then cs(p := (cs p)\<lparr>origin_url := u\<rparr>) else cs
      | [g, a, u, p] \<Rightarrow>
          if g = ''git'' \<and> a = ''clone'' then cs(p := (cs p)\<lparr>origin_url := u\<rparr>) else cs
      | _ \<Rightarrow> cs)"

text \<open>What a command that exits with status zero writes to its standard output.\<close>

definition git_stdout :: "string list \<Rightarrow> (string \<Rightarrow> working_copy) \<Rightarrow> string" where
  "git_stdout cmd cs =
     (case cmd of
        [g, c, p, r, s, origin] \<Rightarrow>
          if g = ''git'' \<and> c = ''-C'' \<and> r = ''remote'' \<and> s = ''get-url'' \<and> origin = ''origin''
          then origin_url (cs p) @ newline
          else if g = ''git'' \<and> c = ''-C'' \<and> r = ''rev-parse'' \<and> s = ''--abbrev-ref'' \<and> origin = ''HEAD''
          then branch (cs p) @ newline
          else []
      | [g, c, p, s, r] \<Rightarrow>
          if g = ''git'' \<and> c = ''-C'' \<and> s = ''symbolic-ref'' \<and> r = ''refs/remotes/origin/HEAD''
          then origin_head (cs p) @ newline
          else []
      | _ \<Rightarrow> [])"

subsection \<open>\<open>subprocess\<close>\<close>

text \<open>Starting a command: it is recorded, the environment decides how it ends.\<close>

definition spawn :: "env \<Rightarrow> string list \<Rightarrow> world \<Rightarrow> outcome \<times> world" where
  "spawn e cmd w =
     (let r = proc e (length (issued w)) cmd;
          w1 = w\<lparr>issued := issued w @ [cmd]\<rparr>
      in (r, if r = Exit0 then w1\<lparr>copies := git_effect cmd (copies w1)\<rparr> else w1))"

text \<open>\<open>subprocess.run(cmd, check=True)\<close>\<close>

definition run_checked :: "env \<Rightarrow> string list \<Rightarrow> world \<Rightarrow> (py_exn + unit) \<times> world" where
  "run_checked e cmd w =
     (case spawn e cmd w of
        (Exit0, w1) \<Rightarrow> (Inr (), w1)
      | (ExitFail, w1) \<Rightarrow> (Inl (CalledProcessError cmd), w1)
      | (NoSpawn, w1) \<Rightarrow> (Inl OSError, w1))"

text \<open>\<open>subprocess.run(cmd, check=False)\<close>; the result is whether the return code is 0.\<close>

definition run_unchecked :: "env \<Rightarrow> string list \<Rightarrow> world \<Rightarrow> (py_exn + bool) \<times> world" where
  "run_unchecked e cmd w =
     (case spawn e cmd w of
        (Exit0, w1) \<Rightarrow> (Inr True, w1)
      | (ExitFail, w1) \<Rightarrow> (Inr False, w1)
      | (NoSpawn, w1) \<Rightarrow> (Inl OSError, w1))"

text \<open>\<open>subprocess.check_output(cmd, text=True)\<close>: the standard output of the command.\<close>

definition check_output :: "env \<Rightarrow> string list \<Rightarrow> world \<Rightarrow> (py_exn + string) \<times> world" where
  "check_output e cmd w =
     (case spawn e cmd w of
        (Exit0, w1) \<Rightarrow> (Inr (git_stdout cmd (copies w)), w1)
      | (ExitFail, w1) \<Rightarrow> (Inl (CalledProcessError cmd), w1)
      | (NoSpawn, w1) \<Rightarrow> (Inl OSError, w1))"

text \<open>A call into GitPython: it is recorded, the environment decides whether it raises.\<close>

definition gitpython :: "env \<Rightarrow> gp_call \<Rightarrow> world \<Rightarrow> (py_exn + unit) \<times> world" where
  "gitpython e c w =
     (let ok = git_api e (length (gp_calls w)) c;
          w1 = w\<lparr>gp_calls := gp_calls w @ [c]\<rparr>
      in (if ok then Inr () else Inl GitCommandError, w1))"

section \<open>\<open>blackland-manager.py\<close>\<close>

definition REPO_PATH :: string where
  "REPO_PATH = ''/home/gost/7heBlackLand''"

definition DEFAULT_COMMIT_MSG :: string where
  "DEFAULT_COMMIT_MSG = ''Welcome to Blackland''"

definition console_print :: "string \<Rightarrow> world \<Rightarrow> world" where
  "console_print s w = w\<lparr>console := console w @ [s]\<rparr>"

text \<open>\<open>log_action\<close>: one line appended to the activity log; a failure to write is swallowed.\<close>

definition log_action :: "string \<Rightarrow> world \<Rightarrow> world" where
  "log_action msg w = w\<lparr>logfile := logfile w @ [msg]\<rparr>"

text \<open>\<open>run_cmd(cmd, cwd=None, capture=False)\<close>: announce the command, then run it checked.\<close>

definition run_cmd :: "env \<Rightarrow> string list \<Rightarrow> string option \<Rightarrow> world \<Rightarrow> (py_exn + unit) \<times> world" where
  "run_cmd e cmd cwd w =
     (let display = (case cwd of
                       Some d \<Rightarrow> if d \<noteq> [] then ''(cwd='' @ d @ '') '' @ join '' '' cmd else join '' '' cmd
                     | None \<Rightarrow> join '' '' cmd)
      in run_checked e cmd (console_print (rocket @ '' '' @ display) w))"

text \<open>
  The body of the \<open>try\<close> of \<open>get_github_default_branch\<close>: \<open>Inr (Some v)\<close> when it returns
  \<open>v\<close>, \<open>Inr None\<close> when it falls through, \<open>Inl\<close> when it raises.
\<close>

definition default_branch_request :: "env \<Rightarrow> string \<Rightarrow> py_exn + json option" where
  "default_branch_request e url =
     (case requests_get e url of
        RequestFailed \<Rightarrow> Inl RequestException
      | Response ok body \<Rightarrow>
          if ok then
            (case body of
               NotJson \<Rightarrow> Inl JSONDecodeError
             | JsonNotObject \<Rightarrow> Inl AttributeError
             | JsonObject members \<Rightarrow>
                 Inr (Some (case map_of members ''default_branch'' of
                              Some v \<Rightarrow> v
                            | None \<Rightarrow> JString ''main'')))
          else Inr None)"

definition get_github_default_branch :: "env \<Rightarrow> string \<Rightarrow> string \<Rightarrow> py_exn + json" where
  "get_github_default_branch e owner repo_name =
     (let url = ''https://api.github.com/repos/'' @ owner @ ''/'' @ repo_name
      in case default_branch_request e url of
           Inr (Some v) \<Rightarrow> Inr v
         | Inr None \<Rightarrow> Inr (JString ''main'')
         | Inl ex \<Rightarrow> Inr (JString ''main''))"

text \<open>The body of the \<open>try\<close> of \<open>ensure_remote_tokenized\<close>.\<close>

definition ensure_remote_tokenized_try :: "env \<Rightarrow> string \<Rightarrow> world \<Rightarrow> (py_exn + unit) \<times> world" where
  "ensure_remote_tokenized_try e repo_path w =
     (case check_output e [''git'', ''-C'', repo_path, ''remote'', ''get-url'', ''origin''] w of
        (Inl ex, w1) \<Rightarrow> (Inl ex, w1)
      | (Inr out, w1) \<Rightarrow>
          (let origin = strip out
           in if prefix ''https://'' origin \<and> CHR ''@'' \<notin> set origin then
                (let new = replace ''https://'' (''https://'' @ TOKEN e @ ''@'') origin
                 in case run_checked e [''git'', ''-C'', repo_path, ''remote'', ''set-url'', ''origin'', new] w1 of
                      (Inl ex, w2) \<Rightarrow> (Inl ex, w2)
                    | (Inr u, w2) \<Rightarrow> (Inr (), log_action (''Tokenized origin for '' @ repo_path) w2))
              else (Inr (), w1)))"

text \<open>\<open>except Exception: pass\<close>: whatever the body raised, the function returns.\<close>

definition ensure_remote_tokenized :: "env \<Rightarrow> string \<Rightarrow> world \<Rightarrow> world" where
  "ensure_remote_tokenized e repo_path w = snd (ensure_remote_tokenized_try e repo_path w)"

text \<open>Python's truth value of an \<open>Optional[str]\<close>.\<close>

definition truthy :: "string option \<Rightarrow> bool" where
  "truthy x = (case x of None \<Rightarrow> False | Some s \<Rightarrow> s \<noteq> [])"

text \<open>\<open>str(v)\<close> of a JSON value, as an f-string formats it.\<close>

definition json_str :: "json \<Rightarrow> string" where
  "json_str v = (case v of JString s \<Rightarrow> s | JNull \<Rightarrow> ''None'' | JOther s \<Rightarrow> s)"

text \<open>
  The part of \<open>ensure_branch_alignment_local\<close> that determines the remote default
  branch: the API when \<open>repo_name\<close> is given, otherwise \<open>origin/HEAD\<close>, otherwise \<open>main\<close>.
\<close>

definition determine_default_branch ::
    "env \<Rightarrow> string \<Rightarrow> string option \<Rightarrow> world \<Rightarrow> (py_exn + json) \<times> world" where
  "determine_default_branch e repo_path repo_name w =
     (if truthy repo_name then
        (get_github_default_branch e (user_login e) (the repo_name), w)
      else
        (case check_output e [''git'', ''-C'', repo_path, ''symbolic-ref'', ''refs/remotes/origin/HEAD''] w of
           (Inr out0, w1) \<Rightarrow>
             (let out = strip out0
              in if out \<noteq> [] \<and> prefix ''refs/remotes/origin/'' out
                 then (Inr (JString (last (split CHR ''/'' out))), w1)
                 else (Inr (JString ''main''), w1))
         | (Inl ex, w1) \<Rightarrow> (Inr (JString ''main''), w1)))"

text \<open>
  The part of \<open>ensure_branch_alignment_local\<close> after both branch names are known. A
  default branch that is not a string makes \<open>subprocess.run\<close> raise \<open>TypeError\<close>.
\<close>

definition align_if_different ::
    "env \<Rightarrow> string \<Rightarrow> json \<Rightarrow> json \<Rightarrow> world \<Rightarrow> (py_exn + unit) \<times> world" where
  "align_if_different e repo_path local_branch default_branch w =
     (if local_branch \<noteq> default_branch then
        (let w1 = console_print (repeat_arrows @ '' Aligning branch: local '' @ [CHR 0x27]
                    @ json_str local_branch @ [CHR 0x27] @ '' '' @ right_arrow @ '' remote default ''
                    @ [CHR 0x27] @ json_str default_branch @ [CHR 0x27] @ '' in '' @ repo_path) w
         in case default_branch of
              JString d \<Rightarrow>
                (case run_unchecked e [''git'', ''-C'', repo_path, ''checkout'', d] w1 of
                   (Inl ex, w2) \<Rightarrow> (Inl ex, w2)
                 | (Inr c, w2) \<Rightarrow>
                     (case run_unchecked e
                             [''git'', ''-C'', repo_path, ''branch'', ''--set-upstream-to'', ''origin/'' @ d, d] w2 of
                        (Inl ex, w3) \<Rightarrow> (Inl ex, w3)
                      | (Inr u, w3) \<Rightarrow>
                          (Inr (), log_action (''Aligned '' @ repo_path @ '' branch '' @ json_str local_branch
                                     @ '' -> '' @ d) w3)))
            | _ \<Rightarrow> (Inl TypeError, w1))
      else (Inr (), w))"

text \<open>The body of the \<open>try\<close> of \<open>ensure_branch_alignment_local\<close>.\<close>

definition ensure_branch_alignment_local_try ::
    "env \<Rightarrow> string \<Rightarrow> string option \<Rightarrow> world \<Rightarrow> (py_exn + unit) \<times> world" where
  "ensure_branch_alignment_local_try e repo_path repo_name w =
     (case run_unchecked e [''git'', ''-C'', repo_path, ''fetch'', ''--all''] w of
        (Inl ex, w1) \<Rightarrow> (Inl ex, w1)
      | (Inr f, w1) \<Rightarrow>
          (case determine_default_branch e repo_path repo_name w1 of
             (Inl ex, w2) \<Rightarrow> (Inl ex, w2)
           | (Inr default_branch, w2) \<Rightarrow>
               (case check_output e [''git'', ''-C'', repo_path, ''rev-parse'', ''--abbrev-ref'', ''HEAD''] w2 of
                  (Inr out, w3) \<Rightarrow> align_if_different e repo_path (JString (strip out)) default_branch w3
                | (Inl ex, w3) \<Rightarrow> align_if_different e repo_path default_branch default_branch w3)))"

definition ensure_branch_alignment_local :: "env \<Rightarrow> string \<Rightarrow> string option \<Rightarrow> world \<Rightarrow> world" where
  "ensure_branch_alignment_local e repo_path repo_name w =
     snd (ensure_branch_alignment_local_try e repo_path repo_name w)"

text \<open>
  The body of the inner \<open>try\<close> of \<open>safe_push\<close>: fetch, then \<open>pull --rebase\<close>, and only
  when that raises \<open>CalledProcessError\<close> the push with \<open>--force-with-lease\<close>.
\<close>

definition safe_push_recovery :: "env \<Rightarrow> string \<Rightarrow> world \<Rightarrow> (py_exn + bool) \<times> world" where
  "safe_push_recovery e repo_path w =
     (case run_cmd e [''git'', ''-C'', repo_path, ''fetch'', ''origin''] None w of
        (Inl ex, w1) \<Rightarrow> (Inl ex, w1)
      | (Inr u, w1) \<Rightarrow>
          (case run_cmd e [''git'', ''-C'', repo_path, ''pull'', ''--rebase''] None w1 of
             (Inr u, w2) \<Rightarrow> (Inr True, log_action (''Recovered push for '' @ repo_path) w2)
           | (Inl (CalledProcessError c), w2) \<Rightarrow>
               (case run_cmd e [''git'', ''-C'', repo_path, ''push'', ''--force-with-lease''] None w2 of
                  (Inr u, w3) \<Rightarrow> (Inr True, log_action (''Recovered push for '' @ repo_path) w3)
                | (Inl ex, w3) \<Rightarrow> (Inl ex, w3))
           | (Inl ex, w2) \<Rightarrow> (Inl ex, w2)))"

text \<open>
  \<open>safe_push\<close>: only \<open>CalledProcessError\<close> from the first push starts the recovery; any
  other exception of the first push leaves the function.
\<close>

definition safe_push :: "env \<Rightarrow> string \<Rightarrow> string \<Rightarrow> world \<Rightarrow> (py_exn + bool) \<times> world" where
  "safe_push e repo_path commit_msg w =
     (case run_cmd e [''git'', ''-C'', repo_path, ''push''] None w of
        (Inr u, w1) \<Rightarrow> (Inr True, log_action (''Pushed '' @ repo_path) w1)
      | (Inl (CalledProcessError c), w1) \<Rightarrow>
          (let w2 = console_print (''[yellow]Push failed (trying recovery): ''
                      @ exn_text e (CalledProcessError c) @ ''[/yellow]'') w1
           in case safe_push_recovery e repo_path w2 of
                (Inr b, w3) \<Rightarrow> (Inr b, w3)
              | (Inl ex, w3) \<Rightarrow>
                  (Inr False,
                   log_action (''Push recovery failed for '' @ repo_path @ '': '' @ exn_text e ex)
                     (console_print (''[red]Push recovery failed: '' @ exn_text e ex @ ''[/red]'') w3)))
      | (Inl ex, w1) \<Rightarrow> (Inl ex, w1))"

text \<open>The command lines a call of \<open>safe_push\<close> adds to those issued before it.\<close>

definition issued_by_safe_push :: "env \<Rightarrow> string \<Rightarrow> string \<Rightarrow> world \<Rightarrow> string list list" where
  "issued_by_safe_push e repo_path commit_msg w =
     drop (length (issued w)) (issued (snd (safe_push e repo_path commit_msg w)))"

text \<open>
  \<open>upload_file_to_github\<close> from \<open>gr.git.add(A=True)\<close> on (the clone into the temporary
  directory and the copying of the files are not modelled): the recovery of the inner
  \<open>try\<close>, a fetch and then the second push.
\<close>

definition upload_push_recovery :: "env \<Rightarrow> string \<Rightarrow> world \<Rightarrow> (py_exn + unit) \<times> world" where
  "upload_push_recovery e branch_name w =
     (case gitpython e (Git_fetch ''origin'') w of
        (Inl ex, w1) \<Rightarrow> (Inl ex, w1)
      | (Inr u, w1) \<Rightarrow> gitpython e (Remote_push (branch_name @ '':'' @ branch_name) True) w1)"

text \<open>
  The body of the outer \<open>try\<close>: \<open>Inr b\<close> when it returns \<open>b\<close>, \<open>Inl\<close> when it raises.
\<close>

definition upload_commit_and_push_try ::
    "env \<Rightarrow> string \<Rightarrow> string \<Rightarrow> string \<Rightarrow> string \<Rightarrow> world \<Rightarrow> (py_exn + bool) \<times> world" where
  "upload_commit_and_push_try e full_name file_path branch_name commit_message w =
     (let uploaded = (\<lambda>w'. (Inr True,
                        log_action (''Uploaded '' @ file_path @ '' -> '' @ full_name @ ''@'' @ branch_name)
                          (console_print (''[green]'' @ check_mark @ '' Uploaded to '' @ full_name @ ''@''
                                            @ branch_name @ ''[/green]'') w')))
      in case gitpython e Add_all w of
           (Inl ex, w1) \<Rightarrow> (Inl ex, w1)
         | (Inr u, w1) \<Rightarrow>
             if is_dirty e then
               (case gitpython e (Index_commit (if commit_message \<noteq> [] then commit_message
                                                else DEFAULT_COMMIT_MSG)) w1 of
                  (Inl ex, w2) \<Rightarrow> (Inl ex, w2)
                | (Inr u, w2) \<Rightarrow>
                    (case gitpython e (Remote_push (branch_name @ '':'' @ branch_name) False) w2 of
                       (Inr u, w3) \<Rightarrow> uploaded w3
                     | (Inl ex0, w3) \<Rightarrow>
                         (case upload_push_recovery e branch_name w3 of
                            (Inr u, w4) \<Rightarrow> uploaded w4
                          | (Inl ex, w4) \<Rightarrow>
                              (Inr False,
                               log_action (''Upload push failed for '' @ full_name @ '': '' @ exn_text e ex)
                                 (console_print (''[red]Push failed after recovery: '' @ exn_text e ex
                                                   @ ''[/red]'') w4)))))
             else uploaded (console_print ''[yellow]No changes to commit.[/yellow]'' w1))"

definition upload_commit_and_push ::
    "env \<Rightarrow> string \<Rightarrow> string \<Rightarrow> string \<Rightarrow> string \<Rightarrow> world \<Rightarrow> bool \<times> world" where
  "upload_commit_and_push e full_name file_path branch_name commit_message w =
     (case upload_commit_and_push_try e full_name file_path branch_name commit_message w of
        (Inr b, w1) \<Rightarrow> (b, w1)
      | (Inl ex, w1) \<Rightarrow>
          (False,
           log_action (''Upload failed for '' @ full_name @ '': '' @ exn_text e ex)
             (console_print (''[red]Upload failed: '' @ exn_text e ex @ ''[/red]'') w1)))"

text \<open>
  \<open>batch_workspace_manager\<close>, the loop over \<open>repo_dirs\<close> for the choices 1, 2 and 3
  (the listing of the workspace and the prompts before it are not modelled). First
  the two \<open>if\<close> statements of the \<open>try\<close> in the loop body.
\<close>

definition batch_pull :: "env \<Rightarrow> string \<Rightarrow> string \<Rightarrow> string \<Rightarrow> world \<Rightarrow> (py_exn + unit) \<times> world" where
  "batch_pull e choice d path w =
     (if choice \<in> set [''1'', ''3''] then
        (case run_cmd e [''git'', ''-C'', path, ''pull''] None
                (console_print (cycle_arrows @ '' Pulling...'') w) of
           (Inl ex, w1) \<Rightarrow> (Inl ex, w1)
         | (Inr u, w1) \<Rightarrow>
             (Inr (), log_action (''Pulled '' @ d) (console_print ''[green]Pulled.[/green]'' w1)))
      else (Inr (), w))"

definition batch_push :: "env \<Rightarrow> string \<Rightarrow> string \<Rightarrow> string \<Rightarrow> world \<Rightarrow> (py_exn + unit) \<times> world" where
  "batch_push e choice commit_msg path w =
     (if choice \<in> set [''2'', ''3''] then
        (case run_cmd e [''git'', ''-C'', path, ''add'', ''.''] None
                (console_print (up_arrow @ '' Adding & committing...'') w) of
           (Inl ex, w1) \<Rightarrow> (Inl ex, w1)
         | (Inr u, w1) \<Rightarrow>
             (case run_unchecked e [''git'', ''-C'', path, ''commit'', ''-m'', commit_msg] w1 of
                (Inl ex, w2) \<Rightarrow> (Inl ex, w2)
              | (Inr committed, w2) \<Rightarrow>
                  if committed then
                    (case safe_push e path commit_msg w2 of
                       (Inl ex, w3) \<Rightarrow> (Inl ex, w3)
                     | (Inr pushed, w3) \<Rightarrow>
                         (Inr (), if pushed then console_print ''[green]Pushed.[/green]'' w3 else w3))
                  else (Inr (), console_print ''[yellow]Nothing to commit.[/yellow]'' w2)))
      else (Inr (), w))"

text \<open>The body of the \<open>try\<close> in the loop body: the pull, then the add, commit and push.\<close>

definition batch_workspace_try ::
    "env \<Rightarrow> string \<Rightarrow> string \<Rightarrow> string \<Rightarrow> string \<Rightarrow> world \<Rightarrow> (py_exn + unit) \<times> world" where
  "batch_workspace_try e choice commit_msg d path w =
     (case batch_pull e choice d path w of
        (Inl ex, w1) \<Rightarrow> (Inl ex, w1)
      | (Inr u, w1) \<Rightarrow> batch_push e choice commit_msg path w1)"

text \<open>
  One pass of the loop body. \<open>except subprocess.CalledProcessError\<close> reports the failure
  of this directory; any other exception leaves the loop.
\<close>

definition batch_workspace_step ::
    "env \<Rightarrow> string \<Rightarrow> string \<Rightarrow> string \<Rightarrow> world \<Rightarrow> (py_exn + unit) \<times> world" where
  "batch_workspace_step e choice commit_msg d w =
     (let path = path_join REPO_PATH d;
          w1 = console_print (newline @ folder @ '' [bold cyan]'' @ d @ ''[/bold cyan]'') w;
          w2 = ensure_remote_tokenized e path w1;
          w3 = ensure_branch_alignment_local e path (Some d) w2
      in case batch_workspace_try e choice commit_msg d path w3 of
           (Inl (CalledProcessError c), w4) \<Rightarrow>
             (Inr (),
              log_action (''Git error '' @ d @ '': '' @ exn_text e (CalledProcessError c))
                (console_print (''[red]Git operation failed for '' @ d @ '': ''
                                  @ exn_text e (CalledProcessError c) @ ''[/red]'') w4))
         | (Inl ex, w4) \<Rightarrow> (Inl ex, w4)
         | (Inr u, w4) \<Rightarrow> (Inr (), w4))"

fun batch_workspace_loop ::
    "env \<Rightarrow> string \<Rightarrow> string \<Rightarrow> string list \<Rightarrow> world \<Rightarrow> (py_exn + unit) \<times> world" where
  "batch_workspace_loop e choice commit_msg [] w = (Inr (), w)"
| "batch_workspace_loop e choice commit_msg (d # ds) w =
     (case batch_workspace_step e choice commit_msg d w of
        (Inl ex, w1) \<Rightarrow> (Inl ex, w1)
      | (Inr u, w1) \<Rightarrow> batch_workspace_loop e choice commit_msg ds w1)"

definition batch_workspace_manager ::
    "env \<Rightarrow> string \<Rightarrow> string \<Rightarrow> string list \<Rightarrow> world \<Rightarrow> (py_exn + unit) \<times> world" where
  "batch_workspace_manager e choice commit_msg repo_dirs w =
     (case batch_workspace_loop e choice commit_msg repo_dirs w of
        (Inl ex, w1) \<Rightarrow> (Inl ex, w1)
      | (Inr u, w1) \<Rightarrow>
          (Inr (), console_print (newline @ sparkles @ '' Batch operations completed.'' @ newline) w1))"

section \<open>\<open>git-full-manager.py\<close>\<close>

text \<open>
  This script has the same \<open>REPO_PATH\<close>, console and log file. Its \<open>log_action\<close> is not
  wrapped in a \<open>try\<close>; the log file is taken to be writable.
\<close>


text \<open>\<open>get_default_branch\<close>: as \<open>get_github_default_branch\<close>, for the authenticated user.\<close>

definition get_default_branch :: "env \<Rightarrow> string \<Rightarrow> py_exn + json" where
  "get_default_branch e repo_name =
     (let url = ''https://api.github.com/repos/'' @ user_login e @ ''/'' @ repo_name
      in case default_branch_request e url of
           Inr (Some v) \<Rightarrow> Inr v
         | Inr None \<Rightarrow> Inr (JString ''main'')
         | Inl ex \<Rightarrow> Inr (JString ''main''))"

text \<open>The body of the \<open>try\<close> of \<open>fix_remote_with_token\<close>; the \<open>set-url\<close> is not checked.\<close>

definition fix_remote_with_token_try :: "env \<Rightarrow> string \<Rightarrow> world \<Rightarrow> (py_exn + unit) \<times> world" where
  "fix_remote_with_token_try e repo_path w =
     (case check_output e [''git'', ''-C'', repo_path, ''remote'', ''get-url'', ''origin''] w of
        (Inl ex, w1) \<Rightarrow> (Inl ex, w1)
      | (Inr out, w1) \<Rightarrow>
          (let url = strip out
           in if CHR ''@'' \<notin> set url \<and> prefix ''https://'' url then
                (let new_url = replace ''https://'' (''https://'' @ TOKEN e @ ''@'') url
                 in case run_unchecked e [''git'', ''-C'', repo_path, ''remote'', ''set-url'', ''origin'', new_url] w1 of
                      (Inl ex, w2) \<Rightarrow> (Inl ex, w2)
                    | (Inr u, w2) \<Rightarrow> (Inr (), w2))
              else (Inr (), w1)))"

definition fix_remote_with_token :: "env \<Rightarrow> string \<Rightarrow> world \<Rightarrow> world" where
  "fix_remote_with_token e repo_path w = snd (fix_remote_with_token_try e repo_path w)"

text \<open>
  The part of \<open>ensure_branch_alignment\<close> after both branch names are known: fetch the
  default branch, check it out, set its upstream; none of the three is checked.
\<close>

definition realign ::
    "env \<Rightarrow> string \<Rightarrow> string \<Rightarrow> string \<Rightarrow> json \<Rightarrow> world \<Rightarrow> (py_exn + unit) \<times> world" where
  "realign e repo_path repo_name local_branch default_branch w =
     (if JString local_branch \<noteq> default_branch then
        (let w1 = console_print (repeat_arrows @ '' Aligning branch from '' @ local_branch @ '' ''
                    @ right_arrow @ '' '' @ json_str default_branch) w
         in case default_branch of
              JString d \<Rightarrow>
                (case run_unchecked e [''git'', ''-C'', repo_path, ''fetch'', ''origin'', d] w1 of
                   (Inl ex, w2) \<Rightarrow> (Inl ex, w2)
                 | (Inr f, w2) \<Rightarrow>
                     (case run_unchecked e [''git'', ''-C'', repo_path, ''checkout'', d] w2 of
                        (Inl ex, w3) \<Rightarrow> (Inl ex, w3)
                      | (Inr c, w3) \<Rightarrow>
                          (case run_unchecked e
                                  [''git'', ''-C'', repo_path, ''branch'', ''--set-upstream-to'', ''origin/'' @ d] w3 of
                             (Inl ex, w4) \<Rightarrow> (Inl ex, w4)
                           | (Inr u, w4) \<Rightarrow>
                               (Inr (), log_action (''Aligned '' @ repo_name @ '' branch '' @ local_branch
                                          @ '' '' @ right_arrow @ '' '' @ d) w4))))
            | _ \<Rightarrow> (Inl TypeError, w1))
      else (Inr (), w))"

text \<open>The body of the \<open>try\<close> of \<open>ensure_branch_alignment\<close>.\<close>

definition ensure_branch_alignment_try ::
    "env \<Rightarrow> string \<Rightarrow> string \<Rightarrow> world \<Rightarrow> (py_exn + unit) \<times> world" where
  "ensure_branch_alignment_try e repo_path repo_name w =
     (case get_default_branch e repo_name of
        Inl ex \<Rightarrow> (Inl ex, w)
      | Inr default_branch \<Rightarrow>
          (case check_output e [''git'', ''-C'', repo_path, ''rev-parse'', ''--abbrev-ref'', ''HEAD''] w of
             (Inl ex, w1) \<Rightarrow> (Inl ex, w1)
           | (Inr out, w1) \<Rightarrow> realign e repo_path repo_name (strip out) default_branch w1))"

definition ensure_branch_alignment :: "env \<Rightarrow> string \<Rightarrow> string \<Rightarrow> world \<Rightarrow> world" where
  "ensure_branch_alignment e repo_path repo_name w =
     snd (ensure_branch_alignment_try e repo_path repo_name w)"




section \<open>\<open>git_pull.py\<close>\<close>

definition PULL_REPO_PATH :: string where
  "PULL_REPO_PATH = ''/home/gost/all-project/git-all/7heBlackLand.github.io''"

text \<open>How the script goes on after a step: it continues, or it calls \<open>exit\<close>, or it raises.\<close>

datatype flow = Continue | Exit nat | Raised py_exn

text \<open>\<open>run(cmd, silent=False)\<close>\<close>

definition run :: "env \<Rightarrow> string list \<Rightarrow> bool \<Rightarrow> world \<Rightarrow> (py_exn + unit) \<times> world" where
  "run e cmd silent w =
     run_checked e cmd (if \<not> silent then console_print (rocket @ '' Running: '' @ join '' '' cmd) w else w)"

text \<open>
  The branch of the script taken when the repository directory does not exist, given
  the two answers typed by the user: the menu choice (stripped) and, for choice 1, the
  URL (before it is stripped).
\<close>

definition clone_flow :: "env \<Rightarrow> string \<Rightarrow> string \<Rightarrow> world \<Rightarrow> flow \<times> world" where
  "clone_flow e choice url_typed w =
     (if choice = ''1'' then
        (let repo_url = strip url_typed
         in if repo_url = [] then
              (Exit 0, console_print (cross_mark @ '' No URL provided. Exiting...'') w)
            else
              (let repo_url = (if prefix ''https://'' repo_url \<and> CHR ''@'' \<notin> set repo_url
                               then replace ''https://'' (''https://'' @ TOKEN e @ ''@'') repo_url
                               else repo_url)
               in case run e [''git'', ''clone'', repo_url, PULL_REPO_PATH] False w of
                    (Inr u, w1) \<Rightarrow>
                      (Continue,
                       log_action (''Cloned repository from '' @ repo_url)
                         (console_print (check_mark @ '' Repository cloned successfully into:'' @ newline
                                           @ ''   '' @ PULL_REPO_PATH @ newline) w1))
                  | (Inl (CalledProcessError c), w1) \<Rightarrow>
                      (Exit 1, console_print (cross_mark @ '' Failed to clone repository: ''
                                                @ exn_text e (CalledProcessError c)) w1)
                  | (Inl ex, w1) \<Rightarrow> (Raised ex, w1)))
      else (Exit 0, console_print ([CHR 0xF0, CHR 0x9F, CHR 0x91, CHR 0x8B] @ '' Cancelled by user. Exiting...'') w))"

section \<open>Example inputs\<close>

text \<open>
  A world with no command issued yet, in which every working copy has \<open>dev\<close> checked
  out, a plain HTTPS remote and \<open>origin/HEAD\<close> pointing at \<open>main\<close>.
\<close>

definition example_world :: world where
  "example_world =
     \<lparr>copies = (\<lambda>p. \<lparr>origin_url = ''https://github.com/gost/site.git'', branch = ''dev'',
                      origin_head = ''refs/remotes/origin/main''\<rparr>),
      issued = [], gp_calls = [], console = [], logfile = []\<rparr>"

text \<open>An environment in which everything succeeds and the API reports \<open>main\<close>.\<close>

definition env_ok :: env where
  "env_ok =
     \<lparr>TOKEN = ''ghp_secret'', user_login = ''gost'',
      proc = (\<lambda>n cmd. Exit0),
      requests_get = (\<lambda>url. Response True (JsonObject [(''default_branch'', JString ''main'')])),
      git_api = (\<lambda>n c. True), is_dirty = True,
      exn_text = (\<lambda>ex. ''error'')\<rparr>"

text \<open>
  The first subprocess issued exits with a non-zero status (for \<open>safe_push\<close> the direct
  push, for the tokenization the \<open>get-url\<close>), every later one succeeds.
\<close>

definition env_first_rejected :: env where
  "env_first_rejected = env_ok\<lparr>proc := (\<lambda>n cmd. if n = 0 then ExitFail else Exit0)\<rparr>"

text \<open>The first push through GitPython raises, every other GitPython call returns.\<close>

definition env_push_raises :: env where
  "env_push_raises = env_ok\<lparr>git_api := (\<lambda>n c. c \<noteq> Remote_push ''main:main'' False)\<rparr>"

text \<open>The checkout of \<open>main\<close> in \<open>/ws/site\<close> fails, every other command succeeds.\<close>

definition env_checkout_fails :: env where
  "env_checkout_fails =
     env_ok\<lparr>proc := (\<lambda>n cmd. if cmd = [''git'', ''-C'', ''/ws/site'', ''checkout'', ''main'']
                              then ExitFail else Exit0)\<rparr>"

text \<open>The API reports \<open>trunk\<close>; the API cannot be reached; the API answers with an error status.\<close>

definition env_api_trunk :: env where
  "env_api_trunk =
     env_ok\<lparr>requests_get := (\<lambda>url. Response True (JsonObject [(''default_branch'', JString ''trunk'')]))\<rparr>"

definition env_api_down :: env where
  "env_api_down = env_ok\<lparr>requests_get := (\<lambda>url. RequestFailed)\<rparr>"

definition env_api_404 :: env where
  "env_api_404 = env_ok\<lparr>requests_get := (\<lambda>url. Response False NotJson)\<rparr>"

text \<open>The pull in the working copy \<open>alpha\<close> of the workspace fails, every other command succeeds.\<close>

definition env_pull_fails :: env where
  "env_pull_fails =
     env_ok\<lparr>proc := (\<lambda>n cmd. if cmd = [''git'', ''-C'', ''/home/gost/7heBlackLand/alpha'', ''pull'']
                              then ExitFail else Exit0)\<rparr>"

text \<open>The pull in \<open>alpha\<close> cannot even be started, every other command succeeds.\<close>

definition env_pull_unstartable :: env where
  "env_pull_unstartable =
     env_ok\<lparr>proc := (\<lambda>n cmd. if cmd = [''git'', ''-C'', ''/home/gost/7heBlackLand/alpha'', ''pull'']
                              then NoSpawn else Exit0)\<rparr>"

text \<open>The add in \<open>alpha\<close> fails, every other command succeeds.\<close>

definition env_add_fails :: env where
  "env_add_fails =
     env_ok\<lparr>proc := (\<lambda>n cmd. if cmd = [''git'', ''-C'', ''/home/gost/7heBlackLand/alpha'', ''add'', ''.'']
                              then ExitFail else Exit0)\<rparr>"

text \<open>The example world with remotes that go through a proxy: \<open>https://\<close> occurs twice.\<close>

definition example_world_proxy :: world where
  "example_world_proxy =
     example_world\<lparr>copies := (\<lambda>p. \<lparr>origin_url = ''https://ghproxy.com/https://github.com/gost/site.git'',
                                       branch = ''dev'', origin_head = ''refs/remotes/origin/main''\<rparr>)\<rparr>"

lemmas example_defs =
  example_world_def env_ok_def env_first_rejected_def env_push_raises_def env_checkout_fails_def
  env_api_trunk_def env_api_down_def env_api_404_def env_pull_fails_def env_pull_unstartable_def
  env_add_fails_def

section \<open>Properties\<close>

subsection \<open>Stripping the strings of the examples\<close>

lemma strip_dev: "strip (''dev'' @ newline) = ''dev''"
  by (simp add: strip_def drop_blanks.simps blanks_def newline_def)

lemma strip_site: "strip (''https://github.com/gost/site.git'' @ newline) = ''https://github.com/gost/site.git''"
  by (simp add: strip_def drop_blanks.simps blanks_def newline_def)

lemma strip_site_typed: "strip ''https://github.com/gost/site.git'' = ''https://github.com/gost/site.git''"
  by (simp add: strip_def drop_blanks.simps blanks_def)

lemma strip_origin_main: "strip (''refs/remotes/origin/main'' @ newline) = ''refs/remotes/origin/main''"
  by (simp add: strip_def drop_blanks.simps blanks_def newline_def)

lemma strip_proxy:
  "strip (''https://ghproxy.com/https://github.com/gost/site.git'' @ newline) =
     ''https://ghproxy.com/https://github.com/gost/site.git''"
  by (simp add: strip_def drop_blanks.simps blanks_def newline_def)

lemmas strip_eval =
  strip_dev [unfolded newline_def append.simps]
  strip_site [unfolded newline_def append.simps]
  strip_site_typed
  strip_origin_main [unfolded newline_def append.simps]
  strip_proxy [unfolded newline_def append.simps]

subsection \<open>Subprocesses\<close>

lemma spawn_keeps [simp]:
  "logfile (snd (spawn e cmd w)) = logfile w"
  "console (snd (spawn e cmd w)) = console w"
  "gp_calls (snd (spawn e cmd w)) = gp_calls w"
  "issued (snd (spawn e cmd w)) = issued w @ [cmd]"
  by (simp_all add: spawn_def Let_def)

lemma spawn_fst [simp]: "fst (spawn e cmd w) = proc e (length (issued w)) cmd"
  by (simp add: spawn_def Let_def)

lemma spawn_copies:
  "copies (snd (spawn e cmd w)) =
     (if proc e (length (issued w)) cmd = Exit0 then git_effect cmd (copies w) else copies w)"
  by (simp add: spawn_def Let_def)

lemma run_unchecked_eq:
  "run_unchecked e cmd w =
     (case proc e (length (issued w)) cmd of
        Exit0 \<Rightarrow> Inr True | ExitFail \<Rightarrow> Inr False | NoSpawn \<Rightarrow> Inl OSError,
      snd (spawn e cmd w))"
  by (cases "spawn e cmd w") (auto simp: run_unchecked_def spawn_def Let_def split: outcome.splits)

lemma run_checked_eq:
  "run_checked e cmd w =
     (case proc e (length (issued w)) cmd of
        Exit0 \<Rightarrow> Inr () | ExitFail \<Rightarrow> Inl (CalledProcessError cmd) | NoSpawn \<Rightarrow> Inl OSError,
      snd (spawn e cmd w))"
  by (cases "spawn e cmd w") (auto simp: run_checked_def spawn_def Let_def split: outcome.splits)

lemma check_output_eq:
  "check_output e cmd w =
     (case proc e (length (issued w)) cmd of
        Exit0 \<Rightarrow> Inr (git_stdout cmd (copies w)) | ExitFail \<Rightarrow> Inl (CalledProcessError cmd)
      | NoSpawn \<Rightarrow> Inl OSError,
      snd (spawn e cmd w))"
  by (cases "spawn e cmd w") (auto simp: check_output_def spawn_def Let_def split: outcome.splits)

lemma git_effect_simps [simp]:
  "git_effect [''git'', ''-C'', p, ''checkout'', b] cs = cs(p := (cs p)\<lparr>branch := b\<rparr>)"
  "git_effect [''git'', ''-C'', p, ''fetch'', ''--all''] cs = cs"
  "git_effect [''git'', ''-C'', p, ''branch'', ''--set-upstream-to'', u, b] cs = cs"
  "git_effect [''git'', ''-C'', p, ''branch'', ''--set-upstream-to'', u] cs = cs"
  "git_effect [''git'', ''-C'', p, ''fetch'', ''origin'', b] cs = cs"
  "git_effect [''git'', ''-C'', p, ''rev-parse'', ''--abbrev-ref'', ''HEAD''] cs = cs"
  "git_effect [''git'', ''-C'', p, ''symbolic-ref'', ''refs/remotes/origin/HEAD''] cs = cs"
  "git_effect [''git'', ''-C'', p, ''remote'', ''get-url'', ''origin''] cs = cs"
  "git_effect [''git'', ''-C'', p, ''remote'', ''set-url'', ''origin'', u] cs = cs(p := (cs p)\<lparr>origin_url := u\<rparr>)"
  by (simp_all add: git_effect_def)

lemma git_stdout_simps [simp]:
  "git_stdout [''git'', ''-C'', p, ''rev-parse'', ''--abbrev-ref'', ''HEAD''] cs = branch (cs p) @ newline"
  "git_stdout [''git'', ''-C'', p, ''symbolic-ref'', ''refs/remotes/origin/HEAD''] cs = origin_head (cs p) @ newline"
  "git_stdout [''git'', ''-C'', p, ''remote'', ''get-url'', ''origin''] cs = origin_url (cs p) @ newline"
  by (simp_all add: git_stdout_def)

lemma issued_console_print [simp]: "issued (console_print s w) = issued w"
  by (simp add: console_print_def)

lemma issued_log_action [simp]: "issued (log_action s w) = issued w"
  by (simp add: log_action_def)

lemma issued_run_checked [simp]: "issued (snd (run_checked e cmd w)) = issued w @ [cmd]"
  by (simp add: run_checked_eq)

lemma run_cmd_eq:
  "run_cmd e cmd None w = run_checked e cmd (console_print (rocket @ '' '' @ join '' '' cmd) w)"
  by (simp add: run_cmd_def)

lemma issued_run_cmd [simp]: "issued (snd (run_cmd e cmd cwd w)) = issued w @ [cmd]"
  by (simp add: run_cmd_def Let_def)



lemma run_unchecked_returns:
  assumes "\<forall>n cmd. proc e n cmd \<noteq> NoSpawn" and "run_unchecked e cmd w = (r, w1)"
  shows "\<exists>b. r = Inr b"
  using assms by (cases "proc e (length (issued w)) cmd") (auto simp: run_unchecked_eq)


subsection \<open>The push with recovery\<close>

lemma issued_safe_push_recovery:
  "issued (snd (safe_push_recovery e p w)) = issued w @ [[''git'', ''-C'', p, ''fetch'', ''origin'']]
   \<or> issued (snd (safe_push_recovery e p w)) =
        issued w @ [[''git'', ''-C'', p, ''fetch'', ''origin''], [''git'', ''-C'', p, ''pull'', ''--rebase'']]
   \<or> issued (snd (safe_push_recovery e p w)) =
        issued w @ [[''git'', ''-C'', p, ''fetch'', ''origin''], [''git'', ''-C'', p, ''pull'', ''--rebase''],
                    [''git'', ''-C'', p, ''push'', ''--force-with-lease'']]"
proof -
  let ?f = "[''git'', ''-C'', p, ''fetch'', ''origin'']"
  let ?r = "[''git'', ''-C'', p, ''pull'', ''--rebase'']"
  let ?l = "[''git'', ''-C'', p, ''push'', ''--force-with-lease'']"
  obtain r1 w1 where f: "run_cmd e ?f None w = (r1, w1)" by (cases "run_cmd e ?f None w")
  have i1: "issued w1 = issued w @ [?f]" using issued_run_cmd [of e ?f None w] f by simp
  obtain r2 w2 where r: "run_cmd e ?r None w1 = (r2, w2)" by (cases "run_cmd e ?r None w1")
  have i2: "issued w2 = issued w @ [?f, ?r]" using issued_run_cmd [of e ?r None w1] r i1 by simp
  obtain r3 w3 where l: "run_cmd e ?l None w2 = (r3, w3)" by (cases "run_cmd e ?l None w2")
  have i3: "issued w3 = issued w @ [?f, ?r, ?l]" using issued_run_cmd [of e ?l None w2] l i2 by simp
  show ?thesis
    using f r l i1 i2 i3
    by (auto simp: safe_push_recovery_def split: sum.splits py_exn.splits)
qed

lemma issued_by_safe_push_cases:
  "issued_by_safe_push e p m w = [[''git'', ''-C'', p, ''push'']]
   \<or> issued_by_safe_push e p m w = [[''git'', ''-C'', p, ''push''], [''git'', ''-C'', p, ''fetch'', ''origin'']]
   \<or> issued_by_safe_push e p m w =
        [[''git'', ''-C'', p, ''push''], [''git'', ''-C'', p, ''fetch'', ''origin''],
         [''git'', ''-C'', p, ''pull'', ''--rebase'']]
   \<or> issued_by_safe_push e p m w =
        [[''git'', ''-C'', p, ''push''], [''git'', ''-C'', p, ''fetch'', ''origin''],
         [''git'', ''-C'', p, ''pull'', ''--rebase''], [''git'', ''-C'', p, ''push'', ''--force-with-lease'']]"
proof -
  let ?p = "[''git'', ''-C'', p, ''push'']"
  obtain r1 w1 where f: "run_cmd e ?p None w = (r1, w1)" by (cases "run_cmd e ?p None w")
  have i1: "issued w1 = issued w @ [?p]" using issued_run_cmd [of e ?p None w] f by simp
  show ?thesis
  proof (cases r1)
    case (Inr u)
    then show ?thesis using f i1 by (simp add: issued_by_safe_push_def safe_push_def)
  next
    case (Inl ex)
    show ?thesis
    proof (cases ex)
      case (CalledProcessError c)
      let ?w2 = "console_print (''[yellow]Push failed (trying recovery): ''
                      @ exn_text e (CalledProcessError c) @ ''[/yellow]'') w1"
      have "issued ?w2 = issued w @ [?p]" using i1 by simp
      with issued_safe_push_recovery [of e p ?w2] show ?thesis
        using f Inl CalledProcessError
        by (auto simp: issued_by_safe_push_def safe_push_def Let_def split: prod.splits sum.splits)
    qed (use f i1 Inl in \<open>simp_all add: issued_by_safe_push_def safe_push_def\<close>)
  qed
qed


lemma safe_push_lease_rejected_fails:
  assumes "[''git'', ''-C'', p, ''push'', ''--force-with-lease''] \<in> set (issued_by_safe_push e p m w)"
    and "proc e (length (issued w) + 3) [''git'', ''-C'', p, ''push'', ''--force-with-lease''] \<noteq> Exit0"
  shows "fst (safe_push e p m w) = Inr False"
  using assms
  by (auto simp: issued_by_safe_push_def safe_push_def safe_push_recovery_def run_cmd_eq run_checked_eq
      console_print_def log_action_def Let_def numeral_3_eq_3
      split: outcome.splits)

text \<open>
  C4. When the working copy has not diverged from its remote, that is, when the direct
  push exits with status zero, \<open>safe_push\<close> returns \<open>True\<close> after that one command:
  neither the fetch and rebase nor the push with \<open>--force-with-lease\<close> is issued, and
  the activity log gains the line \<open>Pushed <path>\<close>.
\<close>

theorem safe_push_first_attempt:
  assumes "proc e (length (issued w)) [''git'', ''-C'', repo_path, ''push''] = Exit0"
  shows "fst (safe_push e repo_path commit_msg w) = Inr True
    \<and> issued_by_safe_push e repo_path commit_msg w = [[''git'', ''-C'', repo_path, ''push'']]
    \<and> logfile (snd (safe_push e repo_path commit_msg w)) = logfile w @ [''Pushed '' @ repo_path]"
  using assms
  by (simp add: safe_push_def issued_by_safe_push_def run_cmd_def run_checked_def spawn_def
      console_print_def log_action_def Let_def)

theorem safe_push_first_attempt_witness:
  "proc env_ok (length (issued example_world)) [''git'', ''-C'', ''/ws/site'', ''push''] = Exit0
   \<and> fst (safe_push env_ok ''/ws/site'' ''update'' example_world) = Inr True
   \<and> issued_by_safe_push env_ok ''/ws/site'' ''update'' example_world = [[''git'', ''-C'', ''/ws/site'', ''push'']]
   \<and> logfile (snd (safe_push env_ok ''/ws/site'' ''update'' example_world)) = [''Pushed /ws/site'']"
proof -
  have h: "proc env_ok (length (issued example_world)) [''git'', ''-C'', ''/ws/site'', ''push''] = Exit0"
    by (simp add: env_ok_def)
  show ?thesis
    using h safe_push_first_attempt [OF h, of "''update''"]
    by (simp add: example_world_def)
qed

text \<open>
  C7. Whatever the outcomes of its commands, one call of \<open>safe_push\<close> issues an initial
  part of the sequence push, fetch, \<open>pull --rebase\<close>, push with \<open>--force-with-lease\<close>: at most
  four commands, at most one rebase and at most one push with \<open>--force-with-lease\<close>.
  \<open>safe_push\<close> is a total function without recursion, so it always returns.
\<close>

theorem safe_push_bounded_recovery:
  "count_list (issued_by_safe_push e repo_path commit_msg w) [''git'', ''-C'', repo_path, ''pull'', ''--rebase''] \<le> 1
   \<and> count_list (issued_by_safe_push e repo_path commit_msg w)
        [''git'', ''-C'', repo_path, ''push'', ''--force-with-lease''] \<le> 1
   \<and> length (issued_by_safe_push e repo_path commit_msg w) \<le> 4
   \<and> prefix (issued_by_safe_push e repo_path commit_msg w)
        [[''git'', ''-C'', repo_path, ''push''], [''git'', ''-C'', repo_path, ''fetch'', ''origin''],
         [''git'', ''-C'', repo_path, ''pull'', ''--rebase''],
         [''git'', ''-C'', repo_path, ''push'', ''--force-with-lease'']]"
  using issued_by_safe_push_cases [of e repo_path commit_msg w] by auto

lemma safe_push_after_clean_rebase:
  assumes "proc e (length (issued w)) [''git'', ''-C'', p, ''push''] = ExitFail"
    and "proc e (Suc (length (issued w))) [''git'', ''-C'', p, ''fetch'', ''origin''] = Exit0"
    and "proc e (Suc (Suc (length (issued w)))) [''git'', ''-C'', p, ''pull'', ''--rebase''] = Exit0"
  shows "fst (safe_push e p m w) = Inr True"
    and "issued_by_safe_push e p m w =
           [[''git'', ''-C'', p, ''push''], [''git'', ''-C'', p, ''fetch'', ''origin''],
            [''git'', ''-C'', p, ''pull'', ''--rebase'']]"
    and "logfile (snd (safe_push e p m w)) = logfile w @ [''Recovered push for '' @ p]"
  using assms
  by (simp_all add: issued_by_safe_push_def safe_push_def safe_push_recovery_def run_cmd_eq run_checked_eq
      console_print_def log_action_def Let_def)

text \<open>
  C1. The direct push is rejected, the fetch and the rebase succeed: \<open>safe_push\<close> returns
  \<open>True\<close> and logs \<open>Recovered push\<close> although the only push it issued is the rejected one.
  The push is not tried again after the clean rebase, here and whenever the three
  commands end that way (\<open>safe_push_after_clean_rebase\<close>).
\<close>

theorem safe_push_clean_rebase_no_retry:
  "fst (safe_push env_first_rejected ''/ws/site'' ''update'' example_world) = Inr True
   \<and> issued_by_safe_push env_first_rejected ''/ws/site'' ''update'' example_world =
       [[''git'', ''-C'', ''/ws/site'', ''push''], [''git'', ''-C'', ''/ws/site'', ''fetch'', ''origin''],
        [''git'', ''-C'', ''/ws/site'', ''pull'', ''--rebase'']]
   \<and> proc env_first_rejected 0 [''git'', ''-C'', ''/ws/site'', ''push''] = ExitFail
   \<and> logfile (snd (safe_push env_first_rejected ''/ws/site'' ''update'' example_world)) =
       [''Recovered push for /ws/site'']"
  by (simp add: safe_push_def safe_push_recovery_def issued_by_safe_push_def run_cmd_def run_checked_def
      spawn_def console_print_def log_action_def Let_def env_first_rejected_def env_ok_def example_world_def)

text \<open>
  C5. Within \<open>safe_push\<close> the only forced push is the one with \<open>--force-with-lease\<close>
  (\<open>issued_by_safe_push_cases\<close>), and when it is rejected the result is \<open>False\<close>
  (\<open>safe_push_lease_rejected_fails\<close>). The upload path does otherwise: when its first push
  raises, it fetches and pushes again with \<open>force=True\<close>, an unconditional force push,
  although its comment announces \<open>--force-with-lease\<close>; the upload then reports success.
\<close>

theorem upload_recovery_forces:
  "fst (upload_commit_and_push env_push_raises ''gost/site'' ''index.html'' ''main'' ''update'' example_world) = True
   \<and> gp_calls (snd (upload_commit_and_push env_push_raises ''gost/site'' ''index.html'' ''main'' ''update''
                       example_world)) =
       [Add_all, Index_commit ''update'', Remote_push ''main:main'' False,
        Git_fetch ''origin'', Remote_push ''main:main'' True]
   \<and> logfile (snd (upload_commit_and_push env_push_raises ''gost/site'' ''index.html'' ''main'' ''update''
                      example_world)) =
       [''Uploaded index.html -> gost/site@main'']"
  by (simp add: upload_commit_and_push_def upload_commit_and_push_try_def upload_push_recovery_def
      gitpython_def example_defs console_print_def log_action_def Let_def)

subsection \<open>The default branch\<close>

lemma get_github_default_branch_cases:
  "get_github_default_branch e owner repo_name =
     Inr (case requests_get e (''https://api.github.com/repos/'' @ owner @ ''/'' @ repo_name) of
            Response True (JsonObject members) \<Rightarrow>
              (case map_of members ''default_branch'' of Some v \<Rightarrow> v | None \<Rightarrow> JString ''main'')
          | _ \<Rightarrow> JString ''main'')"
  by (simp add: get_github_default_branch_def default_branch_request_def Let_def
      split: http_result.splits json_body.splits option.splits bool.splits)

text \<open>
  C3. \<open>get_github_default_branch\<close> and \<open>get_default_branch\<close> always return a value and
  never raise. When the request itself fails (no network, a timeout), and when the
  response has an error status, the value is the string \<open>main\<close>.
\<close>

theorem default_branch_lookup_never_raises:
  "(\<exists>v. get_github_default_branch e owner repo_name = Inr v)
   \<and> (\<exists>v. get_default_branch e repo_name = Inr v)
   \<and> (requests_get e (''https://api.github.com/repos/'' @ owner @ ''/'' @ repo_name) = RequestFailed
        \<longrightarrow> get_github_default_branch e owner repo_name = Inr (JString ''main''))
   \<and> (\<forall>body. requests_get e (''https://api.github.com/repos/'' @ owner @ ''/'' @ repo_name) = Response False body
        \<longrightarrow> get_github_default_branch e owner repo_name = Inr (JString ''main''))
   \<and> (requests_get e (''https://api.github.com/repos/'' @ user_login e @ ''/'' @ repo_name) = RequestFailed
        \<longrightarrow> get_default_branch e repo_name = Inr (JString ''main''))
   \<and> (\<forall>body. requests_get e (''https://api.github.com/repos/'' @ user_login e @ ''/'' @ repo_name) = Response False body
        \<longrightarrow> get_default_branch e repo_name = Inr (JString ''main''))"
  by (auto simp: get_github_default_branch_def get_default_branch_def default_branch_request_def Let_def
      split: http_result.splits json_body.splits option.splits)

theorem default_branch_lookup_never_raises_witness:
  "get_github_default_branch env_api_down ''gost'' ''site'' = Inr (JString ''main'')
   \<and> get_default_branch env_api_down ''site'' = Inr (JString ''main'')
   \<and> get_github_default_branch env_api_404 ''gost'' ''site'' = Inr (JString ''main'')
   \<and> get_default_branch env_api_404 ''site'' = Inr (JString ''main'')"
proof -
  have d: "requests_get env_api_down u = RequestFailed" for u
    by (simp add: env_api_down_def)
  have n: "requests_get env_api_404 u = Response False NotJson" for u
    by (simp add: env_api_404_def)
  have l: "user_login env_api_down = ''gost''" "user_login env_api_404 = ''gost''"
    by (simp_all add: env_api_down_def env_api_404_def env_ok_def)
  from default_branch_lookup_never_raises [of env_api_down "''gost''" "''site''"]
    default_branch_lookup_never_raises [of env_api_404 "''gost''" "''site''"]
  show ?thesis using d n l by simp
qed

subsection \<open>Branch alignment\<close>

lemma align_if_different_effect:
  assumes ns: "\<forall>n cmd. proc e n cmd \<noteq> NoSpawn" and ne: "l \<noteq> d"
  shows "fst (align_if_different e p (JString l) (JString d) w) = Inr ()"
    and "logfile (snd (align_if_different e p (JString l) (JString d) w)) =
           logfile w @ [''Aligned '' @ p @ '' branch '' @ l @ '' -> '' @ d]"
    and "console (snd (align_if_different e p (JString l) (JString d) w)) =
           console w @ [repeat_arrows @ '' Aligning branch: local '' @ [CHR 0x27] @ l @ [CHR 0x27] @ '' ''
              @ right_arrow @ '' remote default '' @ [CHR 0x27] @ d @ [CHR 0x27] @ '' in '' @ p]"
    and "copies (snd (align_if_different e p (JString l) (JString d) w)) =
           (if proc e (length (issued w)) [''git'', ''-C'', p, ''checkout'', d] = Exit0
            then (copies w)(p := (copies w p)\<lparr>branch := d\<rparr>) else copies w)"
proof -
  have a: "proc e n cmd = Exit0 \<or> proc e n cmd = ExitFail" for n cmd
    using ns by (cases "proc e n cmd") auto
  show "fst (align_if_different e p (JString l) (JString d) w) = Inr ()"
    using ne a [of "length (issued w)" "[''git'', ''-C'', p, ''checkout'', d]"]
      a [of "Suc (length (issued w))" "[''git'', ''-C'', p, ''branch'', ''--set-upstream-to'', ''origin/'' @ d, d]"]
    by (auto simp: align_if_different_def run_unchecked_eq json_str_def Let_def console_print_def log_action_def)
  show "logfile (snd (align_if_different e p (JString l) (JString d) w)) =
           logfile w @ [''Aligned '' @ p @ '' branch '' @ l @ '' -> '' @ d]"
    using ne a [of "length (issued w)" "[''git'', ''-C'', p, ''checkout'', d]"]
      a [of "Suc (length (issued w))" "[''git'', ''-C'', p, ''branch'', ''--set-upstream-to'', ''origin/'' @ d, d]"]
    by (auto simp: align_if_different_def run_unchecked_eq json_str_def Let_def console_print_def log_action_def)
  show "console (snd (align_if_different e p (JString l) (JString d) w)) =
           console w @ [repeat_arrows @ '' Aligning branch: local '' @ [CHR 0x27] @ l @ [CHR 0x27] @ '' ''
              @ right_arrow @ '' remote default '' @ [CHR 0x27] @ d @ [CHR 0x27] @ '' in '' @ p]"
    using ne a [of "length (issued w)" "[''git'', ''-C'', p, ''checkout'', d]"]
      a [of "Suc (length (issued w))" "[''git'', ''-C'', p, ''branch'', ''--set-upstream-to'', ''origin/'' @ d, d]"]
    by (auto simp: align_if_different_def run_unchecked_eq json_str_def Let_def console_print_def log_action_def)
  show "copies (snd (align_if_different e p (JString l) (JString d) w)) =
           (if proc e (length (issued w)) [''git'', ''-C'', p, ''checkout'', d] = Exit0
            then (copies w)(p := (copies w p)\<lparr>branch := d\<rparr>) else copies w)"
    using ne a [of "length (issued w)" "[''git'', ''-C'', p, ''checkout'', d]"]
      a [of "Suc (length (issued w))" "[''git'', ''-C'', p, ''branch'', ''--set-upstream-to'', ''origin/'' @ d, d]"]
    by (auto simp: align_if_different_def run_unchecked_eq json_str_def Let_def console_print_def log_action_def
        spawn_copies)
qed

lemma determine_keeps [simp]:
  "copies (snd (determine_default_branch e p rn w)) = copies w"
  "logfile (snd (determine_default_branch e p rn w)) = logfile w"
  "console (snd (determine_default_branch e p rn w)) = console w"
  by (auto simp: determine_default_branch_def check_output_eq spawn_copies Let_def split: outcome.splits)

lemma alignment_local_unfold:
  assumes ns: "\<forall>n cmd. proc e n cmd \<noteq> NoSpawn"
    and rp: "\<forall>n. proc e n [''git'', ''-C'', p, ''rev-parse'', ''--abbrev-ref'', ''HEAD''] = Exit0"
    and dd: "fst (determine_default_branch e p rn
                   (snd (run_unchecked e [''git'', ''-C'', p, ''fetch'', ''--all''] w))) = Inr (JString d)"
  shows "\<exists>w3. copies w3 = copies w \<and> logfile w3 = logfile w \<and> console w3 = console w
           \<and> ensure_branch_alignment_local e p rn w =
               snd (align_if_different e p (JString (strip (branch (copies w p) @ newline))) (JString d) w3)"
proof -
  let ?f = "[''git'', ''-C'', p, ''fetch'', ''--all'']"
  let ?r = "[''git'', ''-C'', p, ''rev-parse'', ''--abbrev-ref'', ''HEAD'']"
  obtain r1 w1 where r1: "run_unchecked e ?f w = (r1, w1)"
    by (cases "run_unchecked e ?f w")
  have "proc e (length (issued w)) ?f \<noteq> NoSpawn"
    using ns by simp
  then obtain b where b: "r1 = Inr b"
    using r1 by (cases "proc e (length (issued w)) ?f") (auto simp: run_unchecked_eq)
  have k1: "copies w1 = copies w" "logfile w1 = logfile w" "console w1 = console w"
    using r1 by (auto simp: run_unchecked_eq spawn_copies)
  obtain r2 w2 where r2: "determine_default_branch e p rn w1 = (r2, w2)"
    by (cases "determine_default_branch e p rn w1")
  have d: "r2 = Inr (JString d)"
    using dd r1 r2 by simp
  have k2: "copies w2 = copies w" "logfile w2 = logfile w" "console w2 = console w"
    using determine_keeps [of e p rn w1] r2 k1 by simp_all
  obtain r3 w3 where r3: "check_output e ?r w2 = (r3, w3)"
    by (cases "check_output e ?r w2")
  have o: "r3 = Inr (branch (copies w p) @ newline)"
    using r3 rp k2 by (auto simp: check_output_eq)
  have k3: "copies w3 = copies w" "logfile w3 = logfile w" "console w3 = console w"
    using r3 rp k2 by (auto simp: check_output_eq spawn_copies)
  have "ensure_branch_alignment_local e p rn w =
          snd (align_if_different e p (JString (strip (branch (copies w p) @ newline))) (JString d) w3)"
    using r1 b r2 d r3 o
    by (simp add: ensure_branch_alignment_local_def ensure_branch_alignment_local_try_def)
  with k3 show ?thesis by blast
qed

lemma realign_effect:
  assumes ns: "\<forall>n cmd. proc e n cmd \<noteq> NoSpawn" and ne: "l \<noteq> d"
  shows "logfile (snd (realign e p name l (JString d) w)) =
           logfile w @ [''Aligned '' @ name @ '' branch '' @ l @ '' '' @ right_arrow @ '' '' @ d]"
    and "copies (snd (realign e p name l (JString d) w)) =
           (if proc e (Suc (length (issued w))) [''git'', ''-C'', p, ''checkout'', d] = Exit0
            then (copies w)(p := (copies w p)\<lparr>branch := d\<rparr>) else copies w)"
proof -
  have a: "proc e n cmd = Exit0 \<or> proc e n cmd = ExitFail" for n cmd
    using ns by (cases "proc e n cmd") auto
  note three = a [of "length (issued w)" "[''git'', ''-C'', p, ''fetch'', ''origin'', d]"]
      a [of "Suc (length (issued w))" "[''git'', ''-C'', p, ''checkout'', d]"]
      a [of "Suc (Suc (length (issued w)))" "[''git'', ''-C'', p, ''branch'', ''--set-upstream-to'', ''origin/'' @ d]"]
  show "logfile (snd (realign e p name l (JString d) w)) =
           logfile w @ [''Aligned '' @ name @ '' branch '' @ l @ '' '' @ right_arrow @ '' '' @ d]"
    using ne three
    by (auto simp: realign_def run_unchecked_eq json_str_def Let_def console_print_def log_action_def)
  show "copies (snd (realign e p name l (JString d) w)) =
           (if proc e (Suc (length (issued w))) [''git'', ''-C'', p, ''checkout'', d] = Exit0
            then (copies w)(p := (copies w p)\<lparr>branch := d\<rparr>) else copies w)"
    using ne three
    by (auto simp: realign_def run_unchecked_eq json_str_def Let_def console_print_def log_action_def
        spawn_copies)
qed

lemma alignment_unfold:
  assumes rp: "\<forall>n. proc e n [''git'', ''-C'', p, ''rev-parse'', ''--abbrev-ref'', ''HEAD''] = Exit0"
    and dd: "get_default_branch e name = Inr (JString d)"
  shows "\<exists>w1. copies w1 = copies w \<and> logfile w1 = logfile w \<and> console w1 = console w
           \<and> ensure_branch_alignment e p name w =
               snd (realign e p name (strip (branch (copies w p) @ newline)) (JString d) w1)"
proof -
  let ?r = "[''git'', ''-C'', p, ''rev-parse'', ''--abbrev-ref'', ''HEAD'']"
  obtain r1 w1 where r1: "check_output e ?r w = (r1, w1)"
    by (cases "check_output e ?r w")
  have o: "r1 = Inr (branch (copies w p) @ newline)"
    using r1 rp by (auto simp: check_output_eq)
  have k1: "copies w1 = copies w" "logfile w1 = logfile w" "console w1 = console w"
    using r1 rp by (auto simp: check_output_eq spawn_copies)
  have "ensure_branch_alignment e p name w =
          snd (realign e p name (strip (branch (copies w p) @ newline)) (JString d) w1)"
    using r1 o dd by (simp add: ensure_branch_alignment_def ensure_branch_alignment_try_def)
  with k1 show ?thesis by blast
qed

lemma align_local_facts:
  assumes ns: "\<forall>n cmd. proc e n cmd \<noteq> NoSpawn"
    and rp: "\<forall>n. proc e n [''git'', ''-C'', p, ''rev-parse'', ''--abbrev-ref'', ''HEAD''] = Exit0"
    and ne: "strip (branch (copies w p) @ newline) \<noteq> d"
    and dd: "fst (determine_default_branch e p rn
                   (snd (run_unchecked e [''git'', ''-C'', p, ''fetch'', ''--all''] w))) = Inr (JString d)"
  shows "((\<forall>n. proc e n [''git'', ''-C'', p, ''checkout'', d] = Exit0) \<longrightarrow>
            branch (copies (ensure_branch_alignment_local e p rn w) p) = d)
       \<and> ((\<forall>n. proc e n [''git'', ''-C'', p, ''checkout'', d] = ExitFail) \<longrightarrow>
            branch (copies (ensure_branch_alignment_local e p rn w) p) = branch (copies w p))
       \<and> logfile (ensure_branch_alignment_local e p rn w) =
            logfile w @ [''Aligned '' @ p @ '' branch '' @ strip (branch (copies w p) @ newline) @ '' -> '' @ d]"
proof -
  from alignment_local_unfold [OF ns rp dd] obtain w3 where
    k: "copies w3 = copies w" "logfile w3 = logfile w" "console w3 = console w"
    and eq: "ensure_branch_alignment_local e p rn w =
               snd (align_if_different e p (JString (strip (branch (copies w p) @ newline))) (JString d) w3)"
    by blast
  show ?thesis
    unfolding eq using k
    by (simp add: align_if_different_effect [OF ns ne])
qed

lemma align_facts:
  assumes ns: "\<forall>n cmd. proc e n cmd \<noteq> NoSpawn"
    and rp: "\<forall>n. proc e n [''git'', ''-C'', p, ''rev-parse'', ''--abbrev-ref'', ''HEAD''] = Exit0"
    and ne: "strip (branch (copies w p) @ newline) \<noteq> d"
    and dd: "get_default_branch e name = Inr (JString d)"
  shows "((\<forall>n. proc e n [''git'', ''-C'', p, ''checkout'', d] = Exit0) \<longrightarrow>
            branch (copies (ensure_branch_alignment e p name w) p) = d)
       \<and> ((\<forall>n. proc e n [''git'', ''-C'', p, ''checkout'', d] = ExitFail) \<longrightarrow>
            branch (copies (ensure_branch_alignment e p name w) p) = branch (copies w p))
       \<and> logfile (ensure_branch_alignment e p name w) =
            logfile w @ [''Aligned '' @ name @ '' branch '' @ strip (branch (copies w p) @ newline)
                           @ '' '' @ right_arrow @ '' '' @ d]"
proof -
  from alignment_unfold [OF rp dd] obtain w1 where
    k: "copies w1 = copies w" "logfile w1 = logfile w" "console w1 = console w"
    and eq: "ensure_branch_alignment e p name w =
               snd (realign e p name (strip (branch (copies w p) @ newline)) (JString d) w1)"
    by blast
  show ?thesis
    unfolding eq using k
    by (simp add: realign_effect [OF ns ne])
qed

lemma realign_issued:
  assumes ns: "\<forall>n cmd. proc e n cmd \<noteq> NoSpawn" and ne: "l \<noteq> d"
  shows "issued (snd (realign e p name l (JString d) w)) =
           issued w @ [[''git'', ''-C'', p, ''fetch'', ''origin'', d], [''git'', ''-C'', p, ''checkout'', d],
                       [''git'', ''-C'', p, ''branch'', ''--set-upstream-to'', ''origin/'' @ d]]"
proof -
  have a: "proc e n cmd = Exit0 \<or> proc e n cmd = ExitFail" for n cmd
    using ns by (cases "proc e n cmd") auto
  note three = a [of "length (issued w)" "[''git'', ''-C'', p, ''fetch'', ''origin'', d]"]
      a [of "Suc (length (issued w))" "[''git'', ''-C'', p, ''checkout'', d]"]
      a [of "Suc (Suc (length (issued w)))" "[''git'', ''-C'', p, ''branch'', ''--set-upstream-to'', ''origin/'' @ d]"]
  show ?thesis
    using ne three
    by (auto simp: realign_def run_unchecked_eq json_str_def Let_def console_print_def log_action_def)
qed

lemma align_issued:
  assumes ns: "\<forall>n cmd. proc e n cmd \<noteq> NoSpawn" and ne: "l \<noteq> d"
  shows "issued (snd (align_if_different e p (JString l) (JString d) w)) =
           issued w @ [[''git'', ''-C'', p, ''checkout'', d],
                       [''git'', ''-C'', p, ''branch'', ''--set-upstream-to'', ''origin/'' @ d, d]]"
proof -
  have a: "proc e n cmd = Exit0 \<or> proc e n cmd = ExitFail" for n cmd
    using ns by (cases "proc e n cmd") auto
  note two = a [of "length (issued w)" "[''git'', ''-C'', p, ''checkout'', d]"]
      a [of "Suc (length (issued w))" "[''git'', ''-C'', p, ''branch'', ''--set-upstream-to'', ''origin/'' @ d, d]"]
  show ?thesis
    using ne two
    by (auto simp: align_if_different_def run_unchecked_eq json_str_def Let_def console_print_def log_action_def)
qed

lemma determine_issued:
  "issued (snd (determine_default_branch e p rn w)) =
     (if truthy rn then issued w
      else issued w @ [[''git'', ''-C'', p, ''symbolic-ref'', ''refs/remotes/origin/HEAD'']])"
  by (auto simp: determine_default_branch_def check_output_eq Let_def split: outcome.splits)

lemma alignment_local_issued:
  assumes ns: "\<forall>n cmd. proc e n cmd \<noteq> NoSpawn"
    and rp: "\<forall>n. proc e n [''git'', ''-C'', p, ''rev-parse'', ''--abbrev-ref'', ''HEAD''] = Exit0"
    and ne: "strip (branch (copies w p) @ newline) \<noteq> d"
    and dd: "fst (determine_default_branch e p rn
                   (snd (run_unchecked e [''git'', ''-C'', p, ''fetch'', ''--all''] w))) = Inr (JString d)"
  shows "issued (ensure_branch_alignment_local e p rn w) =
           issued w @ [[''git'', ''-C'', p, ''fetch'', ''--all'']]
             @ (if truthy rn then [] else [[''git'', ''-C'', p, ''symbolic-ref'', ''refs/remotes/origin/HEAD'']])
             @ [[''git'', ''-C'', p, ''rev-parse'', ''--abbrev-ref'', ''HEAD''],
                [''git'', ''-C'', p, ''checkout'', d],
                [''git'', ''-C'', p, ''branch'', ''--set-upstream-to'', ''origin/'' @ d, d]]"
proof -
  let ?f = "[''git'', ''-C'', p, ''fetch'', ''--all'']"
  let ?r = "[''git'', ''-C'', p, ''rev-parse'', ''--abbrev-ref'', ''HEAD'']"
  obtain r1 w1 where r1: "run_unchecked e ?f w = (r1, w1)"
    by (cases "run_unchecked e ?f w")
  from run_unchecked_returns [OF ns r1] obtain b where b: "r1 = Inr b" by blast
  have k1: "copies w1 = copies w" "issued w1 = issued w @ [?f]"
    using r1 by (auto simp: run_unchecked_eq spawn_copies)
  obtain r2 w2 where r2: "determine_default_branch e p rn w1 = (r2, w2)"
    by (cases "determine_default_branch e p rn w1")
  have d: "r2 = Inr (JString d)"
    using dd r1 r2 by simp
  have k2: "copies w2 = copies w"
    "issued w2 = issued w @ [?f] @ (if truthy rn then [] else [[''git'', ''-C'', p, ''symbolic-ref'', ''refs/remotes/origin/HEAD'']])"
    using determine_keeps [of e p rn w1] determine_issued [of e p rn w1] r2 k1 by simp_all
  obtain r3 w3 where r3: "check_output e ?r w2 = (r3, w3)"
    by (cases "check_output e ?r w2")
  have o: "r3 = Inr (branch (copies w p) @ newline)"
    using r3 rp k2 by (auto simp: check_output_eq)
  have k3: "issued w3 = issued w2 @ [?r]"
    using r3 by (auto simp: check_output_eq)
  have "ensure_branch_alignment_local e p rn w =
          snd (align_if_different e p (JString (strip (branch (copies w p) @ newline))) (JString d) w3)"
    using r1 b r2 d r3 o
    by (simp add: ensure_branch_alignment_local_def ensure_branch_alignment_local_try_def)
  then show ?thesis
    using align_issued [OF ns ne, of p w3] k3 k2 by simp
qed

lemma alignment_issued:
  assumes ns: "\<forall>n cmd. proc e n cmd \<noteq> NoSpawn"
    and rp: "\<forall>n. proc e n [''git'', ''-C'', p, ''rev-parse'', ''--abbrev-ref'', ''HEAD''] = Exit0"
    and ne: "strip (branch (copies w p) @ newline) \<noteq> d"
    and dd: "get_default_branch e name = Inr (JString d)"
  shows "issued (ensure_branch_alignment e p name w) =
           issued w @ [[''git'', ''-C'', p, ''rev-parse'', ''--abbrev-ref'', ''HEAD''],
                       [''git'', ''-C'', p, ''fetch'', ''origin'', d],
                       [''git'', ''-C'', p, ''checkout'', d],
                       [''git'', ''-C'', p, ''branch'', ''--set-upstream-to'', ''origin/'' @ d]]"
proof -
  let ?r = "[''git'', ''-C'', p, ''rev-parse'', ''--abbrev-ref'', ''HEAD'']"
  obtain r1 w1 where r1: "check_output e ?r w = (r1, w1)"
    by (cases "check_output e ?r w")
  have o: "r1 = Inr (branch (copies w p) @ newline)"
    using r1 rp by (auto simp: check_output_eq)
  have k1: "issued w1 = issued w @ [?r]"
    using r1 by (auto simp: check_output_eq)
  have "ensure_branch_alignment e p name w =
          snd (realign e p name (strip (branch (copies w p) @ newline)) (JString d) w1)"
    using r1 o dd by (simp add: ensure_branch_alignment_def ensure_branch_alignment_try_def)
  then show ?thesis
    using realign_issued [OF ns ne, of p name w1] k1 by simp
qed

text \<open>
  C8. In \<open>ensure_branch_alignment_local\<close> the default branch comes from the API when a
  repository name is given, and then no \<open>symbolic-ref\<close> is run; without a name,
  \<open>symbolic-ref refs/remotes/origin/HEAD\<close> is run and the last segment of its output is
  used when the command succeeds and the output starts with \<open>refs/remotes/origin/\<close>,
  otherwise \<open>main\<close>. The API lookup itself yields the \<open>default_branch\<close> member of a
  successful JSON object response and \<open>main\<close> in every other case.
  \<open>ensure_branch_alignment\<close> always has the name and always asks the API. In both
  scripts the branch so determined is the one checked out.
\<close>

theorem default_branch_fallback_chain:
  "(truthy repo_name \<longrightarrow>
      determine_default_branch e repo_path repo_name w =
        (get_github_default_branch e (user_login e) (the repo_name), w))
   \<and> (\<not> truthy repo_name \<longrightarrow>
        issued (snd (determine_default_branch e repo_path repo_name w)) =
          issued w @ [[''git'', ''-C'', repo_path, ''symbolic-ref'', ''refs/remotes/origin/HEAD'']]
        \<and> fst (determine_default_branch e repo_path repo_name w) =
            Inr (JString
              (if proc e (length (issued w)) [''git'', ''-C'', repo_path, ''symbolic-ref'', ''refs/remotes/origin/HEAD''] = Exit0
                  \<and> prefix ''refs/remotes/origin/'' (strip (origin_head (copies w repo_path) @ newline))
               then last (split CHR ''/'' (strip (origin_head (copies w repo_path) @ newline)))
               else ''main'')))
   \<and> get_github_default_branch e owner name =
        Inr (case requests_get e (''https://api.github.com/repos/'' @ owner @ ''/'' @ name) of
               Response True (JsonObject members) \<Rightarrow>
                 (case map_of members ''default_branch'' of Some v \<Rightarrow> v | None \<Rightarrow> JString ''main'')
             | _ \<Rightarrow> JString ''main'')
   \<and> get_default_branch e name = get_github_default_branch e (user_login e) name
   \<and> ((\<forall>n cmd. proc e n cmd \<noteq> NoSpawn)
        \<and> (\<forall>n. proc e n [''git'', ''-C'', repo_path, ''rev-parse'', ''--abbrev-ref'', ''HEAD''] = Exit0)
        \<and> strip (branch (copies w repo_path) @ newline) \<noteq> d
        \<and> fst (determine_default_branch e repo_path repo_name
                 (snd (run_unchecked e [''git'', ''-C'', repo_path, ''fetch'', ''--all''] w))) = Inr (JString d)
        \<longrightarrow> issued (ensure_branch_alignment_local e repo_path repo_name w) =
              issued w @ [[''git'', ''-C'', repo_path, ''fetch'', ''--all'']]
                @ (if truthy repo_name then []
                   else [[''git'', ''-C'', repo_path, ''symbolic-ref'', ''refs/remotes/origin/HEAD'']])
                @ [[''git'', ''-C'', repo_path, ''rev-parse'', ''--abbrev-ref'', ''HEAD''],
                   [''git'', ''-C'', repo_path, ''checkout'', d],
                   [''git'', ''-C'', repo_path, ''branch'', ''--set-upstream-to'', ''origin/'' @ d, d]])
   \<and> ((\<forall>n cmd. proc e n cmd \<noteq> NoSpawn)
        \<and> (\<forall>n. proc e n [''git'', ''-C'', repo_path, ''rev-parse'', ''--abbrev-ref'', ''HEAD''] = Exit0)
        \<and> strip (branch (copies w repo_path) @ newline) \<noteq> d
        \<and> get_default_branch e name = Inr (JString d)
        \<longrightarrow> issued (ensure_branch_alignment e repo_path name w) =
              issued w @ [[''git'', ''-C'', repo_path, ''rev-parse'', ''--abbrev-ref'', ''HEAD''],
                          [''git'', ''-C'', repo_path, ''fetch'', ''origin'', d],
                          [''git'', ''-C'', repo_path, ''checkout'', d],
                          [''git'', ''-C'', repo_path, ''branch'', ''--set-upstream-to'', ''origin/'' @ d]])"
proof (intro conjI impI)
  assume "truthy repo_name"
  then show "determine_default_branch e repo_path repo_name w =
        (get_github_default_branch e (user_login e) (the repo_name), w)"
    by (simp add: determine_default_branch_def)
next
  assume "\<not> truthy repo_name"
  then show "issued (snd (determine_default_branch e repo_path repo_name w)) =
          issued w @ [[''git'', ''-C'', repo_path, ''symbolic-ref'', ''refs/remotes/origin/HEAD'']]"
    by (simp add: determine_issued)
next
  assume "\<not> truthy repo_name"
  then show "fst (determine_default_branch e repo_path repo_name w) =
            Inr (JString
              (if proc e (length (issued w)) [''git'', ''-C'', repo_path, ''symbolic-ref'', ''refs/remotes/origin/HEAD''] = Exit0
                  \<and> prefix ''refs/remotes/origin/'' (strip (origin_head (copies w repo_path) @ newline))
               then last (split CHR ''/'' (strip (origin_head (copies w repo_path) @ newline)))
               else ''main''))"
    by (auto simp: determine_default_branch_def check_output_eq Let_def split: outcome.splits)
next
  show "get_github_default_branch e owner name =
        Inr (case requests_get e (''https://api.github.com/repos/'' @ owner @ ''/'' @ name) of
               Response True (JsonObject members) \<Rightarrow>
                 (case map_of members ''default_branch'' of Some v \<Rightarrow> v | None \<Rightarrow> JString ''main'')
             | _ \<Rightarrow> JString ''main'')"
    by (rule get_github_default_branch_cases)
next
  show "get_default_branch e name = get_github_default_branch e (user_login e) name"
    by (simp add: get_default_branch_def get_github_default_branch_def)
next
  assume "(\<forall>n cmd. proc e n cmd \<noteq> NoSpawn)
        \<and> (\<forall>n. proc e n [''git'', ''-C'', repo_path, ''rev-parse'', ''--abbrev-ref'', ''HEAD''] = Exit0)
        \<and> strip (branch (copies w repo_path) @ newline) \<noteq> d
        \<and> fst (determine_default_branch e repo_path repo_name
                 (snd (run_unchecked e [''git'', ''-C'', repo_path, ''fetch'', ''--all''] w))) = Inr (JString d)"
  then show "issued (ensure_branch_alignment_local e repo_path repo_name w) =
              issued w @ [[''git'', ''-C'', repo_path, ''fetch'', ''--all'']]
                @ (if truthy repo_name then []
                   else [[''git'', ''-C'', repo_path, ''symbolic-ref'', ''refs/remotes/origin/HEAD'']])
                @ [[''git'', ''-C'', repo_path, ''rev-parse'', ''--abbrev-ref'', ''HEAD''],
                   [''git'', ''-C'', repo_path, ''checkout'', d],
                   [''git'', ''-C'', repo_path, ''branch'', ''--set-upstream-to'', ''origin/'' @ d, d]]"
    using alignment_local_issued [of e repo_path w d repo_name] by blast
next
  assume "(\<forall>n cmd. proc e n cmd \<noteq> NoSpawn)
        \<and> (\<forall>n. proc e n [''git'', ''-C'', repo_path, ''rev-parse'', ''--abbrev-ref'', ''HEAD''] = Exit0)
        \<and> strip (branch (copies w repo_path) @ newline) \<noteq> d
        \<and> get_default_branch e name = Inr (JString d)"
  then show "issued (ensure_branch_alignment e repo_path name w) =
              issued w @ [[''git'', ''-C'', repo_path, ''rev-parse'', ''--abbrev-ref'', ''HEAD''],
                          [''git'', ''-C'', repo_path, ''fetch'', ''origin'', d],
                          [''git'', ''-C'', repo_path, ''checkout'', d],
                          [''git'', ''-C'', repo_path, ''branch'', ''--set-upstream-to'', ''origin/'' @ d]]"
    using alignment_issued [of e repo_path w d name] by blast
qed

theorem default_branch_fallback_chain_witness:
  "determine_default_branch env_api_trunk ''/ws/site'' (Some ''site'') example_world =
     (Inr (JString ''trunk''), example_world)
   \<and> fst (determine_default_branch env_api_trunk ''/ws/site'' None example_world) = Inr (JString ''main'')
   \<and> issued (snd (determine_default_branch env_api_trunk ''/ws/site'' None example_world)) =
       [[''git'', ''-C'', ''/ws/site'', ''symbolic-ref'', ''refs/remotes/origin/HEAD'']]
   \<and> issued (ensure_branch_alignment_local env_api_trunk ''/ws/site'' (Some ''site'') example_world) =
       [[''git'', ''-C'', ''/ws/site'', ''fetch'', ''--all''],
        [''git'', ''-C'', ''/ws/site'', ''rev-parse'', ''--abbrev-ref'', ''HEAD''],
        [''git'', ''-C'', ''/ws/site'', ''checkout'', ''trunk''],
        [''git'', ''-C'', ''/ws/site'', ''branch'', ''--set-upstream-to'', ''origin/trunk'', ''trunk'']]"
proof -
  have t: "truthy (Some ''site'')" "\<not> truthy None" by (simp_all add: truthy_def)
  have api: "get_github_default_branch env_api_trunk (user_login env_api_trunk) ''site'' = Inr (JString ''trunk'')"
    by (simp add: get_github_default_branch_cases env_api_trunk_def)
  have ns: "\<forall>n cmd. proc env_api_trunk n cmd \<noteq> NoSpawn"
    and rp: "\<forall>n. proc env_api_trunk n [''git'', ''-C'', ''/ws/site'', ''rev-parse'', ''--abbrev-ref'', ''HEAD''] = Exit0"
    by (simp_all add: example_defs)
  have ne: "strip (branch (copies example_world ''/ws/site'') @ newline) \<noteq> ''trunk''"
    by (simp add: example_defs strip_eval newline_def)
  have sy: "proc env_api_trunk (length (issued example_world))
              [''git'', ''-C'', ''/ws/site'', ''symbolic-ref'', ''refs/remotes/origin/HEAD''] = Exit0"
    "strip (origin_head (copies example_world ''/ws/site'') @ newline) = ''refs/remotes/origin/main''"
    "issued example_world = []"
    by (simp_all add: example_defs strip_eval newline_def)
  have dd: "fst (determine_default_branch env_api_trunk ''/ws/site'' (Some ''site'')
                 (snd (run_unchecked env_api_trunk [''git'', ''-C'', ''/ws/site'', ''fetch'', ''--all''] example_world)))
            = Inr (JString ''trunk'')"
    using api by (simp add: determine_default_branch_def t)
  from default_branch_fallback_chain [of "Some ''site''" env_api_trunk "''/ws/site''" example_world
      "''gost''" "''site''" "''trunk''"]
    default_branch_fallback_chain [of None env_api_trunk "''/ws/site''" example_world
      "''gost''" "''site''" "''trunk''"]
  show ?thesis
    using t api ns rp ne sy dd by simp
qed

text \<open>
  C6, as the code has it. Let git be startable, let \<open>rev-parse\<close> succeed, and let the
  branch it reports differ from the default branch \<open>d\<close>. Then after
  \<open>ensure_branch_alignment_local\<close> (and after \<open>ensure_branch_alignment\<close>) the branch
  checked out is \<open>d\<close> when the checkout succeeds and is unchanged when the checkout
  fails; in both cases the activity log gains the same line \<open>Aligned ...\<close>, so the
  scripts record no failure of the switch.
\<close>

theorem align_branch_best_effort:
  assumes ns: "\<forall>n cmd. proc e n cmd \<noteq> NoSpawn"
    and rp: "\<forall>n. proc e n [''git'', ''-C'', p, ''rev-parse'', ''--abbrev-ref'', ''HEAD''] = Exit0"
    and ne: "strip (branch (copies w p) @ newline) \<noteq> d"
  shows "(fst (determine_default_branch e p rn
                (snd (run_unchecked e [''git'', ''-C'', p, ''fetch'', ''--all''] w))) = Inr (JString d) \<longrightarrow>
           ((\<forall>n. proc e n [''git'', ''-C'', p, ''checkout'', d] = Exit0) \<longrightarrow>
              branch (copies (ensure_branch_alignment_local e p rn w) p) = d)
         \<and> ((\<forall>n. proc e n [''git'', ''-C'', p, ''checkout'', d] = ExitFail) \<longrightarrow>
              branch (copies (ensure_branch_alignment_local e p rn w) p) = branch (copies w p))
         \<and> logfile (ensure_branch_alignment_local e p rn w) =
              logfile w @ [''Aligned '' @ p @ '' branch '' @ strip (branch (copies w p) @ newline) @ '' -> '' @ d])
       \<and> (get_default_branch e name = Inr (JString d) \<longrightarrow>
           ((\<forall>n. proc e n [''git'', ''-C'', p, ''checkout'', d] = Exit0) \<longrightarrow>
              branch (copies (ensure_branch_alignment e p name w) p) = d)
         \<and> ((\<forall>n. proc e n [''git'', ''-C'', p, ''checkout'', d] = ExitFail) \<longrightarrow>
              branch (copies (ensure_branch_alignment e p name w) p) = branch (copies w p))
         \<and> logfile (ensure_branch_alignment e p name w) =
              logfile w @ [''Aligned '' @ name @ '' branch '' @ strip (branch (copies w p) @ newline)
                             @ '' '' @ right_arrow @ '' '' @ d])"
proof (rule conjI; rule impI)
  assume "fst (determine_default_branch e p rn
                (snd (run_unchecked e [''git'', ''-C'', p, ''fetch'', ''--all''] w))) = Inr (JString d)"
  then show "((\<forall>n. proc e n [''git'', ''-C'', p, ''checkout'', d] = Exit0) \<longrightarrow>
              branch (copies (ensure_branch_alignment_local e p rn w) p) = d)
         \<and> ((\<forall>n. proc e n [''git'', ''-C'', p, ''checkout'', d] = ExitFail) \<longrightarrow>
              branch (copies (ensure_branch_alignment_local e p rn w) p) = branch (copies w p))
         \<and> logfile (ensure_branch_alignment_local e p rn w) =
              logfile w @ [''Aligned '' @ p @ '' branch '' @ strip (branch (copies w p) @ newline) @ '' -> '' @ d]"
    by (rule align_local_facts [OF ns rp ne])
next
  assume "get_default_branch e name = Inr (JString d)"
  then show "((\<forall>n. proc e n [''git'', ''-C'', p, ''checkout'', d] = Exit0) \<longrightarrow>
              branch (copies (ensure_branch_alignment e p name w) p) = d)
         \<and> ((\<forall>n. proc e n [''git'', ''-C'', p, ''checkout'', d] = ExitFail) \<longrightarrow>
              branch (copies (ensure_branch_alignment e p name w) p) = branch (copies w p))
         \<and> logfile (ensure_branch_alignment e p name w) =
              logfile w @ [''Aligned '' @ name @ '' branch '' @ strip (branch (copies w p) @ newline)
                             @ '' '' @ right_arrow @ '' '' @ d]"
    by (rule align_facts [OF ns rp ne])
qed

theorem align_branch_best_effort_witness:
  "branch (copies (ensure_branch_alignment_local env_ok ''/ws/site'' (Some ''site'') example_world) ''/ws/site'') = ''main''
   \<and> logfile (ensure_branch_alignment_local env_ok ''/ws/site'' (Some ''site'') example_world) =
       [''Aligned /ws/site branch dev -> main'']
   \<and> branch (copies (ensure_branch_alignment env_checkout_fails ''/ws/site'' ''site'' example_world) ''/ws/site'') = ''dev''
   \<and> logfile (ensure_branch_alignment env_checkout_fails ''/ws/site'' ''site'' example_world) =
       [''Aligned site branch dev '' @ right_arrow @ '' main'']"
proof -
  have ns: "\<forall>n cmd. proc env_ok n cmd \<noteq> NoSpawn"
    and rp: "\<forall>n. proc env_ok n [''git'', ''-C'', ''/ws/site'', ''rev-parse'', ''--abbrev-ref'', ''HEAD''] = Exit0"
    and co: "\<forall>n. proc env_ok n [''git'', ''-C'', ''/ws/site'', ''checkout'', ''main''] = Exit0"
    by (simp_all add: example_defs)
  have ns': "\<forall>n cmd. proc env_checkout_fails n cmd \<noteq> NoSpawn"
    and rp': "\<forall>n. proc env_checkout_fails n [''git'', ''-C'', ''/ws/site'', ''rev-parse'', ''--abbrev-ref'', ''HEAD''] = Exit0"
    and co': "\<forall>n. proc env_checkout_fails n [''git'', ''-C'', ''/ws/site'', ''checkout'', ''main''] = ExitFail"
    by (simp_all add: example_defs)
  have ne: "strip (branch (copies example_world ''/ws/site'') @ newline) \<noteq> ''main''"
    and l: "strip (branch (copies example_world ''/ws/site'') @ newline) = ''dev''"
      "branch (copies example_world ''/ws/site'') = ''dev''" "logfile example_world = []"
    by (simp_all add: example_defs strip_eval newline_def)
  have dd: "fst (determine_default_branch env_ok ''/ws/site'' (Some ''site'')
                 (snd (run_unchecked env_ok [''git'', ''-C'', ''/ws/site'', ''fetch'', ''--all''] example_world)))
            = Inr (JString ''main'')"
    by (simp add: determine_default_branch_def truthy_def get_github_default_branch_cases env_ok_def)
  have dd': "get_default_branch env_checkout_fails ''site'' = Inr (JString ''main'')"
    by (simp add: get_default_branch_def default_branch_request_def example_defs)
  from align_branch_best_effort [OF ns rp ne, of "Some ''site''" "''site''"]
    align_branch_best_effort [OF ns' rp' ne, of "Some ''site''" "''site''"]
  show ?thesis
    using dd dd' co co' l by simp
qed

text \<open>
  C6, as the claim states it, fails: the checkout of \<open>main\<close> fails, the branch stays
  \<open>dev\<close>, and the activity log and the console are exactly those of the run in which
  the checkout succeeds. Nothing records the failure.
\<close>

theorem align_failure_not_recorded:
  "branch (copies example_world ''/ws/site'') = ''dev''
   \<and> get_github_default_branch env_checkout_fails ''gost'' ''site'' = Inr (JString ''main'')
   \<and> proc env_checkout_fails 2 [''git'', ''-C'', ''/ws/site'', ''checkout'', ''main''] = ExitFail
   \<and> branch (copies (ensure_branch_alignment_local env_checkout_fails ''/ws/site'' (Some ''site'') example_world)
                ''/ws/site'') = ''dev''
   \<and> issued (ensure_branch_alignment_local env_checkout_fails ''/ws/site'' (Some ''site'') example_world) =
       [[''git'', ''-C'', ''/ws/site'', ''fetch'', ''--all''],
        [''git'', ''-C'', ''/ws/site'', ''rev-parse'', ''--abbrev-ref'', ''HEAD''],
        [''git'', ''-C'', ''/ws/site'', ''checkout'', ''main''],
        [''git'', ''-C'', ''/ws/site'', ''branch'', ''--set-upstream-to'', ''origin/main'', ''main'']]
   \<and> logfile (ensure_branch_alignment_local env_checkout_fails ''/ws/site'' (Some ''site'') example_world) =
       [''Aligned /ws/site branch dev -> main'']
   \<and> logfile (ensure_branch_alignment_local env_checkout_fails ''/ws/site'' (Some ''site'') example_world) =
       logfile (ensure_branch_alignment_local env_ok ''/ws/site'' (Some ''site'') example_world)
   \<and> console (ensure_branch_alignment_local env_checkout_fails ''/ws/site'' (Some ''site'') example_world) =
       console (ensure_branch_alignment_local env_ok ''/ws/site'' (Some ''site'') example_world)"
  by (simp add: ensure_branch_alignment_local_def ensure_branch_alignment_local_try_def
      determine_default_branch_def align_if_different_def get_github_default_branch_def
      default_branch_request_def truthy_def json_str_def run_unchecked_eq check_output_eq spawn_copies
      console_print_def log_action_def Let_def strip_eval newline_def example_defs)

subsection \<open>The token in the remote URL\<close>

lemma in_set_drop_blanks:
  "c \<in> set s \<Longrightarrow> \<forall>b \<in> set bs. c \<notin> set b \<Longrightarrow> c \<in> set (drop_blanks bs s)"
proof (induction bs s rule: drop_blanks.induct)
  case (1 bs s)
  show ?case
  proof (cases "find (\<lambda>b. b \<noteq> [] \<and> prefix b s) bs")
    case None
    with "1.prems" show ?thesis by (simp add: drop_blanks.simps [of bs s])
  next
    case (Some b)
    then have b: "b \<in> set bs" "prefix b s"
      by (auto simp: find_Some_iff)
    then obtain r where s: "s = b @ r" by (auto simp: prefix_def)
    with b "1.prems" have "c \<in> set (drop (length b) s)" by auto
    with "1.IH" [OF Some] "1.prems" Some show ?thesis
      by (simp add: drop_blanks.simps [of bs s])
  qed
qed

lemma in_set_strip: "c \<in> set s \<Longrightarrow> \<forall>b \<in> set blanks. c \<notin> set b \<Longrightarrow> c \<in> set (strip s)"
  by (simp add: strip_def in_set_drop_blanks)

lemma at_not_blank: "\<forall>b \<in> set blanks. CHR ''@'' \<notin> set b"
  by (simp add: blanks_def)

lemma replace_prefix:
  "old \<noteq> [] \<Longrightarrow> prefix old s \<Longrightarrow> replace old new s = new @ replace old new (drop (length old) s)"
  by (subst replace.simps) auto

lemma tokenized_has_at:
  "prefix ''https://'' s \<Longrightarrow> CHR ''@'' \<in> set (replace ''https://'' (''https://'' @ t @ ''@'') s)"
  by (simp add: replace_prefix)

lemma ensure_remote_tokenized_origin:
  "origin_url (copies (ensure_remote_tokenized e p w) p) =
     (let u = strip (origin_url (copies w p) @ newline) in
      if proc e (length (issued w)) [''git'', ''-C'', p, ''remote'', ''get-url'', ''origin''] = Exit0
         \<and> prefix ''https://'' u \<and> CHR ''@'' \<notin> set u
         \<and> proc e (Suc (length (issued w)))
              [''git'', ''-C'', p, ''remote'', ''set-url'', ''origin'',
               replace ''https://'' (''https://'' @ TOKEN e @ ''@'') u] = Exit0
      then replace ''https://'' (''https://'' @ TOKEN e @ ''@'') u
      else origin_url (copies w p))"
  by (simp add: ensure_remote_tokenized_def ensure_remote_tokenized_try_def check_output_def
      run_checked_def spawn_def git_stdout_def git_effect_def log_action_def Let_def
      split: outcome.splits)

lemma fix_remote_with_token_origin:
  "origin_url (copies (fix_remote_with_token e p w) p) =
     (let u = strip (origin_url (copies w p) @ newline) in
      if proc e (length (issued w)) [''git'', ''-C'', p, ''remote'', ''get-url'', ''origin''] = Exit0
         \<and> prefix ''https://'' u \<and> CHR ''@'' \<notin> set u
         \<and> proc e (Suc (length (issued w)))
              [''git'', ''-C'', p, ''remote'', ''set-url'', ''origin'',
               replace ''https://'' (''https://'' @ TOKEN e @ ''@'') u] = Exit0
      then replace ''https://'' (''https://'' @ TOKEN e @ ''@'') u
      else origin_url (copies w p))"
  by (simp add: fix_remote_with_token_def fix_remote_with_token_try_def check_output_def
      run_unchecked_def spawn_def git_stdout_def git_effect_def Let_def
      split: outcome.splits)

lemma tokenized_stays:
  assumes "prefix ''https://'' u"
  shows "CHR ''@'' \<in> set (strip (replace ''https://'' (''https://'' @ t @ ''@'') u @ newline))"
  using tokenized_has_at [OF assms, of t] by (intro in_set_strip at_not_blank) simp

lemma tokenized_once:
  assumes "origin_url (copies (ensure_remote_tokenized e p w) p) \<noteq> origin_url (copies w p)"
  shows "prefix ''https://'' (strip (origin_url (copies w p) @ newline))
       \<and> CHR ''@'' \<notin> set (strip (origin_url (copies w p) @ newline))
       \<and> origin_url (copies (ensure_remote_tokenized e p w) p) =
           replace ''https://'' (''https://'' @ TOKEN e @ ''@'') (strip (origin_url (copies w p) @ newline))"
  using assms by (simp add: ensure_remote_tokenized_origin Let_def split: if_splits)

lemma fixed_once:
  assumes "origin_url (copies (fix_remote_with_token e p w) p) \<noteq> origin_url (copies w p)"
  shows "prefix ''https://'' (strip (origin_url (copies w p) @ newline))
       \<and> CHR ''@'' \<notin> set (strip (origin_url (copies w p) @ newline))
       \<and> origin_url (copies (fix_remote_with_token e p w) p) =
           replace ''https://'' (''https://'' @ TOKEN e @ ''@'') (strip (origin_url (copies w p) @ newline))"
  using assms by (simp add: fix_remote_with_token_origin Let_def split: if_splits)

lemma tokenized_untouched:
  assumes "CHR ''@'' \<in> set (strip (origin_url (copies w p) @ newline))"
  shows "origin_url (copies (ensure_remote_tokenized e p w) p) = origin_url (copies w p)"
    and "origin_url (copies (fix_remote_with_token e p w) p) = origin_url (copies w p)"
  using assms by (simp_all add: ensure_remote_tokenized_origin fix_remote_with_token_origin Let_def)

lemma replace_absent: "old \<noteq> [] \<Longrightarrow> \<not> contains old s \<Longrightarrow> replace old new s = s"
proof (induction s)
  case Nil
  then show ?case by (simp add: replace.simps [of old new "[]"])
next
  case (Cons c cs)
  then show ?case by (simp add: replace.simps [of old new "c # cs"])
qed

lemma tokenized_single:
  assumes "prefix ''https://'' u" and "\<not> contains ''https://'' (drop 8 u)"
  shows "replace ''https://'' (''https://'' @ t @ ''@'') u = ''https://'' @ t @ ''@'' @ drop 8 u"
proof -
  have "replace ''https://'' (''https://'' @ t @ ''@'') u =
          (''https://'' @ t @ ''@'') @ replace ''https://'' (''https://'' @ t @ ''@'') (drop (length ''https://'') u)"
    using assms(1) by (intro replace_prefix) simp_all
  moreover have "length ''https://'' = 8" by simp
  moreover have "replace ''https://'' (''https://'' @ t @ ''@'') (drop 8 u) = drop 8 u"
    using assms(2) by (intro replace_absent) simp_all
  ultimately show ?thesis by (simp only: append_assoc)
qed

lemma tokenized_further:
  assumes "CHR ''@'' \<in> set (strip (origin_url (copies w p) @ newline))"
  shows "origin_url (copies ((ensure_remote_tokenized e p ^^ k) w) p) = origin_url (copies w p)"
    and "origin_url (copies ((fix_remote_with_token e p ^^ k) w) p) = origin_url (copies w p)"
proof -
  show "origin_url (copies ((ensure_remote_tokenized e p ^^ k) w) p) = origin_url (copies w p)"
  proof (induction k)
    case 0
    show ?case by simp
  next
    case (Suc k)
    let ?w = "(ensure_remote_tokenized e p ^^ k) w"
    from Suc assms have "CHR ''@'' \<in> set (strip (origin_url (copies ?w p) @ newline))" by simp
    then have "origin_url (copies (ensure_remote_tokenized e p ?w) p) = origin_url (copies ?w p)"
      by (rule tokenized_untouched)
    with Suc show ?case by simp
  qed
  show "origin_url (copies ((fix_remote_with_token e p ^^ k) w) p) = origin_url (copies w p)"
  proof (induction k)
    case 0
    show ?case by simp
  next
    case (Suc k)
    let ?w = "(fix_remote_with_token e p ^^ k) w"
    from Suc assms have "CHR ''@'' \<in> set (strip (origin_url (copies ?w p) @ newline))" by simp
    then have "origin_url (copies (fix_remote_with_token e p ?w) p) = origin_url (copies ?w p)"
      by (rule tokenized_untouched)
    with Suc show ?case by simp
  qed
qed

lemma tokenized_deterministic:
  assumes det: "\<forall>n cmd. proc e n cmd = proc e 0 cmd"
  shows "origin_url (copies (ensure_remote_tokenized e p (ensure_remote_tokenized e p w)) p) =
           origin_url (copies (ensure_remote_tokenized e p w) p)"
proof (cases "origin_url (copies (ensure_remote_tokenized e p w) p) = origin_url (copies w p)")
  case True
  have d: "proc e n cmd = proc e m cmd" for n m cmd
    using det by metis
  let ?w1 = "ensure_remote_tokenized e p w"
  show ?thesis
    unfolding ensure_remote_tokenized_origin [of e p ?w1]
    unfolding True
    using True
    unfolding ensure_remote_tokenized_origin [of e p w] Let_def
    using d [of "length (issued ?w1)" _ "length (issued w)"]
      d [of "Suc (length (issued ?w1))" _ "Suc (length (issued w))"]
    by (auto split: if_splits)
next
  case False
  from tokenized_once [OF False]
  have "CHR ''@'' \<in> set (strip (origin_url (copies (ensure_remote_tokenized e p w) p) @ newline))"
    using tokenized_stays [of "strip (origin_url (copies w p) @ newline)" "TOKEN e"] by metis
  then show ?thesis by (rule tokenized_untouched)
qed

lemma fixed_deterministic:
  assumes det: "\<forall>n cmd. proc e n cmd = proc e 0 cmd"
  shows "origin_url (copies (fix_remote_with_token e p (fix_remote_with_token e p w)) p) =
           origin_url (copies (fix_remote_with_token e p w) p)"
proof (cases "origin_url (copies (fix_remote_with_token e p w) p) = origin_url (copies w p)")
  case True
  have d: "proc e n cmd = proc e m cmd" for n m cmd
    using det by metis
  let ?w1 = "fix_remote_with_token e p w"
  show ?thesis
    unfolding fix_remote_with_token_origin [of e p ?w1]
    unfolding True
    using True
    unfolding fix_remote_with_token_origin [of e p w] Let_def
    using d [of "length (issued ?w1)" _ "length (issued w)"]
      d [of "Suc (length (issued ?w1))" _ "Suc (length (issued w))"]
    by (auto split: if_splits)
next
  case False
  from fixed_once [OF False]
  have "CHR ''@'' \<in> set (strip (origin_url (copies (fix_remote_with_token e p w) p) @ newline))"
    using tokenized_stays [of "strip (origin_url (copies w p) @ newline)" "TOKEN e"] by metis
  then show ?thesis by (rule tokenized_untouched)
qed

text \<open>
  C10, as the code has it. \<open>ensure_remote_tokenized\<close> and \<open>fix_remote_with_token\<close>
  change the URL of \<open>origin\<close> only when it starts with \<open>https://\<close> and has no \<open>@\<close>,
  and then to the URL with every \<open>https://\<close> replaced by \<open>https://TOKEN@\<close>. Once a call
  has rewritten the URL, any number of further calls, in any environment, leave it as
  it is. A URL in which \<open>https://\<close> occurs only at the start receives the token exactly
  once. When the outcome of a git command does not depend on when it is issued, two
  calls leave the URL that one call leaves.
\<close>

theorem tokenize_remote_idempotent:
  "(origin_url (copies (ensure_remote_tokenized e p w) p) \<noteq> origin_url (copies w p) \<longrightarrow>
      prefix ''https://'' (strip (origin_url (copies w p) @ newline))
      \<and> CHR ''@'' \<notin> set (strip (origin_url (copies w p) @ newline))
      \<and> origin_url (copies (ensure_remote_tokenized e p w) p) =
          replace ''https://'' (''https://'' @ TOKEN e @ ''@'') (strip (origin_url (copies w p) @ newline))
      \<and> (\<forall>k. origin_url (copies ((ensure_remote_tokenized e' p ^^ k) (ensure_remote_tokenized e p w)) p) =
               origin_url (copies (ensure_remote_tokenized e p w) p)))
   \<and> (origin_url (copies (fix_remote_with_token e p w) p) \<noteq> origin_url (copies w p) \<longrightarrow>
        prefix ''https://'' (strip (origin_url (copies w p) @ newline))
        \<and> CHR ''@'' \<notin> set (strip (origin_url (copies w p) @ newline))
        \<and> origin_url (copies (fix_remote_with_token e p w) p) =
            replace ''https://'' (''https://'' @ TOKEN e @ ''@'') (strip (origin_url (copies w p) @ newline))
        \<and> (\<forall>k. origin_url (copies ((fix_remote_with_token e' p ^^ k) (fix_remote_with_token e p w)) p) =
                 origin_url (copies (fix_remote_with_token e p w) p)))
   \<and> (prefix ''https://'' u \<and> \<not> contains ''https://'' (drop 8 u) \<longrightarrow>
        replace ''https://'' (''https://'' @ TOKEN e @ ''@'') u = ''https://'' @ TOKEN e @ ''@'' @ drop 8 u)
   \<and> ((\<forall>n cmd. proc e n cmd = proc e 0 cmd) \<longrightarrow>
        origin_url (copies (ensure_remote_tokenized e p (ensure_remote_tokenized e p w)) p) =
          origin_url (copies (ensure_remote_tokenized e p w) p)
        \<and> origin_url (copies (fix_remote_with_token e p (fix_remote_with_token e p w)) p) =
            origin_url (copies (fix_remote_with_token e p w) p))"
proof (intro conjI impI allI)
  assume ch: "origin_url (copies (ensure_remote_tokenized e p w) p) \<noteq> origin_url (copies w p)"
  from tokenized_once [OF ch]
  show "prefix ''https://'' (strip (origin_url (copies w p) @ newline))"
    and "CHR ''@'' \<notin> set (strip (origin_url (copies w p) @ newline))"
    and "origin_url (copies (ensure_remote_tokenized e p w) p) =
          replace ''https://'' (''https://'' @ TOKEN e @ ''@'') (strip (origin_url (copies w p) @ newline))"
    by simp_all
  from tokenized_once [OF ch]
  have at: "CHR ''@'' \<in> set (strip (origin_url (copies (ensure_remote_tokenized e p w) p) @ newline))"
    using tokenized_stays [of "strip (origin_url (copies w p) @ newline)" "TOKEN e"] by metis
  fix k
  show "origin_url (copies ((ensure_remote_tokenized e' p ^^ k) (ensure_remote_tokenized e p w)) p) =
               origin_url (copies (ensure_remote_tokenized e p w) p)"
    using at by (rule tokenized_further)
next
  assume ch: "origin_url (copies (fix_remote_with_token e p w) p) \<noteq> origin_url (copies w p)"
  from fixed_once [OF ch]
  show "prefix ''https://'' (strip (origin_url (copies w p) @ newline))"
    and "CHR ''@'' \<notin> set (strip (origin_url (copies w p) @ newline))"
    and "origin_url (copies (fix_remote_with_token e p w) p) =
            replace ''https://'' (''https://'' @ TOKEN e @ ''@'') (strip (origin_url (copies w p) @ newline))"
    by simp_all
  from fixed_once [OF ch]
  have at: "CHR ''@'' \<in> set (strip (origin_url (copies (fix_remote_with_token e p w) p) @ newline))"
    using tokenized_stays [of "strip (origin_url (copies w p) @ newline)" "TOKEN e"] by metis
  fix k
  show "origin_url (copies ((fix_remote_with_token e' p ^^ k) (fix_remote_with_token e p w)) p) =
                 origin_url (copies (fix_remote_with_token e p w) p)"
    using at by (rule tokenized_further)
next
  assume "prefix ''https://'' u \<and> \<not> contains ''https://'' (drop 8 u)"
  then show "replace ''https://'' (''https://'' @ TOKEN e @ ''@'') u = ''https://'' @ TOKEN e @ ''@'' @ drop 8 u"
    using tokenized_single [of u "TOKEN e"] by blast
next
  assume "\<forall>n cmd. proc e n cmd = proc e 0 cmd"
  then show "origin_url (copies (ensure_remote_tokenized e p (ensure_remote_tokenized e p w)) p) =
          origin_url (copies (ensure_remote_tokenized e p w) p)"
    by (rule tokenized_deterministic)
next
  assume "\<forall>n cmd. proc e n cmd = proc e 0 cmd"
  then show "origin_url (copies (fix_remote_with_token e p (fix_remote_with_token e p w)) p) =
            origin_url (copies (fix_remote_with_token e p w) p)"
    by (rule fixed_deterministic)
qed

theorem tokenize_remote_idempotent_witness:
  "origin_url (copies (ensure_remote_tokenized env_ok ''/ws/site'' example_world) ''/ws/site'')
     = ''https://ghp_secret@github.com/gost/site.git''
   \<and> origin_url (copies (ensure_remote_tokenized env_ok ''/ws/site''
                            (ensure_remote_tokenized env_ok ''/ws/site'' example_world)) ''/ws/site'')
     = ''https://ghp_secret@github.com/gost/site.git''
   \<and> origin_url (copies ((ensure_remote_tokenized env_first_rejected ''/ws/site'' ^^ 3)
                            (ensure_remote_tokenized env_ok ''/ws/site'' example_world)) ''/ws/site'')
     = ''https://ghp_secret@github.com/gost/site.git''"
proof -
  let ?u = "''https://github.com/gost/site.git''"
  have u: "strip (origin_url (copies example_world ''/ws/site'') @ newline) = ?u"
    by (simp add: example_world_def strip_eval newline_def)
  have pre: "prefix ''https://'' ?u \<and> \<not> contains ''https://'' (drop 8 ?u)"
    by simp
  have ok: "\<forall>n cmd. proc env_ok n cmd = proc env_ok 0 cmd" by (simp add: env_ok_def)
  have tok: "TOKEN env_ok = ''ghp_secret''" by (simp add: env_ok_def)
  note inst = tokenize_remote_idempotent [of env_ok "''/ws/site''" example_world env_first_rejected ?u]
  have new: "replace ''https://'' (''https://'' @ TOKEN env_ok @ ''@'') ?u = ''https://ghp_secret@github.com/gost/site.git''"
    using inst pre tok by simp
  have one: "origin_url (copies (ensure_remote_tokenized env_ok ''/ws/site'' example_world) ''/ws/site'')
     = ''https://ghp_secret@github.com/gost/site.git''"
    using new u by (simp add: ensure_remote_tokenized_origin Let_def env_ok_def)
  have ch: "origin_url (copies (ensure_remote_tokenized env_ok ''/ws/site'' example_world) ''/ws/site'')
     \<noteq> origin_url (copies example_world ''/ws/site'')"
    unfolding one by (simp add: example_world_def)
  from inst ch one ok show ?thesis by simp
qed

text \<open>
  C10, as the claim states it, fails twice. One call puts the token in twice when the
  URL holds \<open>https://\<close> twice. And a second call changes the URL when the first call
  changed nothing because its \<open>get-url\<close> failed.
\<close>

theorem tokenize_embeds_twice:
  "origin_url (copies (ensure_remote_tokenized env_ok ''/ws/site'' example_world_proxy) ''/ws/site'') =
     ''https://ghp_secret@ghproxy.com/https://ghp_secret@github.com/gost/site.git''
   \<and> origin_url (copies (fix_remote_with_token env_ok ''/ws/site'' example_world_proxy) ''/ws/site'') =
     ''https://ghp_secret@ghproxy.com/https://ghp_secret@github.com/gost/site.git''
   \<and> origin_url (copies (ensure_remote_tokenized env_first_rejected ''/ws/site'' example_world) ''/ws/site'') =
     ''https://github.com/gost/site.git''
   \<and> origin_url (copies (ensure_remote_tokenized env_first_rejected ''/ws/site''
                            (ensure_remote_tokenized env_first_rejected ''/ws/site'' example_world)) ''/ws/site'') =
     ''https://ghp_secret@github.com/gost/site.git''"
  by (simp add: ensure_remote_tokenized_def ensure_remote_tokenized_try_def
      fix_remote_with_token_def fix_remote_with_token_try_def
      check_output_eq run_checked_eq run_unchecked_eq spawn_copies log_action_def Let_def
      example_defs example_world_proxy_def strip_eval
      newline_def replace.simps)

subsection \<open>The batch over the workspace\<close>





















subsection \<open>The token in the activity log\<close>

lemma contains_append: "contains t (a @ t @ b)"
proof (induction a)
  case Nil
  have "prefix t (t @ b)" by simp
  then show ?case by (cases "t @ b") auto
next
  case (Cons x a)
  then show ?case by simp
qed

lemma clone_flow_logs_token:
  assumes "prefix ''https://'' (strip u)" and "CHR ''@'' \<notin> set (strip u)"
    and "proc e (length (issued w))
           [''git'', ''clone'', replace ''https://'' (''https://'' @ TOKEN e @ ''@'') (strip u), PULL_REPO_PATH] = Exit0"
  shows "logfile (snd (clone_flow e ''1'' u w)) =
           logfile w @ [''Cloned repository from '' @ replace ''https://'' (''https://'' @ TOKEN e @ ''@'') (strip u)]"
    and "contains (TOKEN e) (last (logfile (snd (clone_flow e ''1'' u w))))"
proof -
  have ne: "strip u \<noteq> []" using assms(1) by auto
  show l: "logfile (snd (clone_flow e ''1'' u w)) =
           logfile w @ [''Cloned repository from '' @ replace ''https://'' (''https://'' @ TOKEN e @ ''@'') (strip u)]"
    using assms ne
    by (simp add: clone_flow_def run_def run_checked_eq console_print_def log_action_def Let_def)
  have "replace ''https://'' (''https://'' @ TOKEN e @ ''@'') (strip u) =
          (''https://'' @ TOKEN e @ ''@'') @ replace ''https://'' (''https://'' @ TOKEN e @ ''@'') (drop (length ''https://'') (strip u))"
    using assms(1) by (intro replace_prefix) simp_all
  then have "last (logfile (snd (clone_flow e ''1'' u w))) =
          (''Cloned repository from '' @ ''https://'') @ TOKEN e
            @ (''@'' @ replace ''https://'' (''https://'' @ TOKEN e @ ''@'') (drop (length ''https://'') (strip u)))"
    unfolding l by simp
  then show "contains (TOKEN e) (last (logfile (snd (clone_flow e ''1'' u w))))"
    using contains_append [of "TOKEN e" "''Cloned repository from '' @ ''https://''"] by metis
qed

text \<open>
  C2. The clone of \<open>git_pull.py\<close> puts the token into the URL, announces the command with
  that URL on the console, and after a successful clone writes the same URL, token
  included, to the activity log, here and for every token and every plain HTTPS URL
  (\<open>clone_flow_logs_token\<close>).
\<close>

theorem clone_logs_token:
  "fst (clone_flow env_ok ''1'' ''https://github.com/gost/site.git'' example_world) = Continue
   \<and> logfile (snd (clone_flow env_ok ''1'' ''https://github.com/gost/site.git'' example_world)) =
       [''Cloned repository from https://ghp_secret@github.com/gost/site.git'']
   \<and> contains (TOKEN env_ok)
        (last (logfile (snd (clone_flow env_ok ''1'' ''https://github.com/gost/site.git'' example_world))))
   \<and> contains (TOKEN env_ok)
        (hd (console (snd (clone_flow env_ok ''1'' ''https://github.com/gost/site.git'' example_world))))"
  by (simp add: clone_flow_def run_def run_checked_eq example_defs rocket_def
      console_print_def log_action_def Let_def strip_eval replace.simps PULL_REPO_PATH_def)

end
